theory Spec2Isabelle
  imports Main "HOL-Library.Sublist" "HOL-Library.AList"
begin

section \<open>Python strings and paths used by the experiment scripts\<close>

text \<open>
  Both scripts (\<^verbatim>\<open>dilated_convolutional_model.py\<close> and \<^verbatim>\<open>vlaai_mel.py\<close>) select
  their input files with the same three string operations: \<^verbatim>\<open>os.path.basename\<close>,
  \<^verbatim>\<open>str.split\<close> with a literal separator, and the substring test \<^verbatim>\<open>sub in name\<close>.
  Strings are character lists.
\<close>

datatype py_error = IndexError | KeyError | AxisError | RuntimeError string

text \<open>
  \<^verbatim>\<open>s.split(sep)\<close>: the string is scanned from the left; at each position where
  \<open>sep\<close> starts, the token collected so far is closed and the scan resumes behind the
  separator (occurrences never overlap). \<open>cur\<close> is the token being collected. The
  scripts only pass the literals \<^verbatim>\<open>"_-_"\<close> and \<^verbatim>\<open>"."\<close>, so Python's ValueError for an
  empty separator cannot arise; with an empty \<open>sep\<close> this function returns \<open>[s]\<close>.
\<close>

function py_split_aux :: "string \<Rightarrow> string \<Rightarrow> string \<Rightarrow> string list" where
  "py_split_aux sep cur [] = [cur]"
| "py_split_aux sep cur (c # cs) =
     (if sep \<noteq> [] \<and> prefix sep (c # cs)
      then cur # py_split_aux sep [] (drop (length sep) (c # cs))
      else py_split_aux sep (cur @ [c]) cs)"
  by pat_completeness auto
termination
  by (relation "measure (\<lambda>(sep, cur, s). length s)") (auto simp: neq_Nil_conv)

definition py_split :: "string \<Rightarrow> string \<Rightarrow> string list" where
  "py_split sep s = py_split_aux sep [] s"

text \<open>
  \<^verbatim>\<open>xs[i]\<close>: a negative index counts from the end, an index out of range raises
  IndexError.
\<close>

definition py_index :: "'a list \<Rightarrow> int \<Rightarrow> py_error + 'a" where
  "py_index xs i =
     (if 0 \<le> i \<and> i < int (length xs) then Inr (xs ! nat i)
      else if i < 0 \<and> - int (length xs) \<le> i then Inr (xs ! nat (int (length xs) + i))
      else Inl IndexError)"

text \<open>\<^verbatim>\<open>os.path.basename(p)\<close> (posixpath): everything behind the last \<^verbatim>\<open>/\<close>.\<close>

definition basename :: "string \<Rightarrow> string" where
  "basename p = rev (takeWhile (\<lambda>c. c \<noteq> CHR ''/'') (rev p))"

text \<open>\<^verbatim>\<open>os.path.join(a, b)\<close> (posixpath, two arguments).\<close>

definition py_join :: "string \<Rightarrow> string \<Rightarrow> string" where
  "py_join a b =
     (if prefix ''/'' b then b
      else if a = [] \<or> suffix ''/'' a then a @ b
      else a @ ''/'' @ b)"

text \<open>\<^verbatim>\<open>sub in s\<close> on strings: \<open>sub\<close> occurs in \<open>s\<close> as a contiguous substring.\<close>

fun py_contains :: "string \<Rightarrow> string \<Rightarrow> bool" where
  "py_contains sub [] = (sub = [])"
| "py_contains sub (c # cs) = (prefix sub (c # cs) \<or> py_contains sub cs)"

section \<open>File discovery\<close>

text \<open>
  The file system, as far as \<^verbatim>\<open>glob.glob\<close> reads it: \<open>listdir d\<close> are the names of
  the entries of the directory at path \<open>d\<close>, in the order the system lists them (none
  when \<open>d\<close> is no directory; the empty path is the current directory), and
  \<open>glob_dirs pat\<close> are the paths \<^verbatim>\<open>glob.glob(pat)\<close> returns for a directory pattern.
\<close>

record filesystem =
  listdir :: "string \<Rightarrow> string list"
  glob_dirs :: "string \<Rightarrow> string list"

text \<open>\<^verbatim>\<open>glob.has_magic(s)\<close>: one of the characters \<^verbatim>\<open>*\<close>, \<^verbatim>\<open>?\<close>, \<^verbatim>\<open>[\<close> occurs in \<open>s\<close>.\<close>

definition has_magic :: "string \<Rightarrow> bool" where
  "has_magic s = list_ex (\<lambda>c. c = CHR ''*'' \<or> c = CHR ''?'' \<or> c = CHR ''['') s"

text \<open>
  \<^verbatim>\<open>os.path.split(p)[0]\<close> (posixpath): everything up to the last slash, with trailing
  slashes removed unless it consists of slashes only.
\<close>

definition py_dirname :: "string \<Rightarrow> string" where
  "py_dirname p =
     (let head = rev (dropWhile (\<lambda>c. c \<noteq> CHR ''/'') (rev p))
      in if head \<noteq> [] \<and> \<not> list_all (\<lambda>c. c = CHR ''/'') head
         then rev (dropWhile (\<lambda>c. c = CHR ''/'') (rev head))
         else head)"

text \<open>
  \<^verbatim>\<open>glob.glob(os.path.join(folder, pre + "*"))\<close>, where \<open>pre\<close> is one of the literals
  \<^verbatim>\<open>train_-_\<close>, \<^verbatim>\<open>val_-_\<close>, \<^verbatim>\<open>test_-_\<close> (no slash, no pattern character, no leading
  dot). \<^verbatim>\<open>glob\<close> splits the pattern into its directory part and its last component.
  A directory part with a pattern character is itself expanded by \<^verbatim>\<open>glob\<close>; one
  without is taken as it is. In every such directory the entries whose name matches the
  last component, that is, starts with \<open>pre\<close>, are returned, each joined to the
  directory.
\<close>

definition searched_dirs :: "filesystem \<Rightarrow> string \<Rightarrow> string \<Rightarrow> string list" where
  "searched_dirs fs folder pre =
     (let dirname = py_dirname (py_join folder (pre @ ''*''))
      in if has_magic dirname then glob_dirs fs dirname else [dirname])"

definition glob_prefix :: "filesystem \<Rightarrow> string \<Rightarrow> string \<Rightarrow> string list" where
  "glob_prefix fs folder pre =
     concat (map (\<lambda>d. map (py_join d) (filter (prefix pre) (listdir fs d)))
               (searched_dirs fs folder pre))"

text \<open>The paths of all entries of the directories that such a search reads.\<close>

definition glob_candidates :: "filesystem \<Rightarrow> string \<Rightarrow> string \<Rightarrow> string list" where
  "glob_candidates fs folder pre =
     concat (map (\<lambda>d. map (py_join d) (listdir fs d)) (searched_dirs fs folder pre))"

text \<open>
  \<^verbatim>\<open>os.path.basename(x).split("_-_")[-1].split(".")[0]\<close>: the feature name of a file.
\<close>

definition feature_of :: "string \<Rightarrow> py_error + string" where
  "feature_of x =
     (case py_index (py_split ''_-_'' (basename x)) (- 1) of
        Inl e \<Rightarrow> Inl e
      | Inr t \<Rightarrow> py_index (py_split ''.'' t) 0)"

text \<open>
  The list comprehension \<^verbatim>\<open>[x for x in candidates if feature(x) in features]\<close>; an
  exception raised by the condition ends the comprehension.
\<close>

fun select_files :: "string list \<Rightarrow> string list \<Rightarrow> py_error + string list" where
  "select_files features [] = Inr []"
| "select_files features (x # xs) =
     (case feature_of x of
        Inl e \<Rightarrow> Inl e
      | Inr f \<Rightarrow>
          (case select_files features xs of
             Inl e \<Rightarrow> Inl e
           | Inr ys \<Rightarrow> Inr (if f \<in> set features then x # ys else ys)))"

definition split_files :: "filesystem \<Rightarrow> string \<Rightarrow> string \<Rightarrow> string list \<Rightarrow> py_error + string list" where
  "split_files fs folder pre features = select_files features (glob_prefix fs folder pre)"

text \<open>
  The naming convention \<^verbatim>\<open><split>_-_<subject>_-_<feature>.<ext>\<close>, as a property of a
  path: it is the path of an entry of a searched directory, its basename begins with
  the prefix of the split, and the last \<open>_-_\<close>-separated token of its basename, cut at
  the first dot, is one of the features.
\<close>

definition follows_convention ::
  "filesystem \<Rightarrow> string \<Rightarrow> string \<Rightarrow> string list \<Rightarrow> string \<Rightarrow> bool" where
  "follows_convention fs folder pre features p \<longleftrightarrow>
     p \<in> set (glob_candidates fs folder pre) \<and>
     prefix pre (basename p) \<and>
     takeWhile (\<lambda>c. c \<noteq> CHR ''.'') (last (py_split ''_-_'' (basename p))) \<in> set features"

text \<open>The feature lists of the two scripts: \<^verbatim>\<open>["eeg"] + stimulus_features\<close>.\<close>

definition features_task1 :: "string list" where
  "features_task1 = [''eeg''] @ [''envelope'']"

definition features_task2 :: "string list" where
  "features_task2 = [''eeg''] @ [''mel'']"

text \<open>
  \<^verbatim>\<open>os.path.basename(x).split("_-_")[1]\<close>: the subject field of a file, and the
  comprehension that collects it for every test file.
\<close>

definition subject_of :: "string \<Rightarrow> py_error + string" where
  "subject_of x = py_index (py_split ''_-_'' (basename x)) 1"

fun subject_fields :: "string list \<Rightarrow> py_error + string list" where
  "subject_fields [] = Inr []"
| "subject_fields (x # xs) =
     (case subject_of x of
        Inl e \<Rightarrow> Inl e
      | Inr s \<Rightarrow>
          (case subject_fields xs of
             Inl e \<Rightarrow> Inl e
           | Inr ss \<Rightarrow> Inr (s # ss)))"

text \<open>
  \<^verbatim>\<open>subjects = list(set([...]))\<close>: the distinct subject fields. Python fixes no order
  for the elements of a set; \<open>remdups\<close> is one such order.
\<close>

definition subjects :: "string list \<Rightarrow> py_error + string list" where
  "subjects test_files =
     (case subject_fields test_files of
        Inl e \<Rightarrow> Inl e
      | Inr ss \<Rightarrow> Inr (remdups ss))"

text \<open>\<^verbatim>\<open>files_test_sub = [f for f in test_files if sub in os.path.basename(f)]\<close>\<close>

definition files_test_sub :: "string list \<Rightarrow> string \<Rightarrow> string list" where
  "files_test_sub test_files sub = filter (\<lambda>f. py_contains sub (basename f)) test_files"

section \<open>Dictionaries\<close>

text \<open>
  A Python dictionary is an association list with distinct keys in insertion order:
  \<^verbatim>\<open>d[k] = v\<close> is \<open>AList.update k v d\<close>, which replaces the value of a key
  that is present, in place, and appends a new key. \<^verbatim>\<open>dict(pairs)\<close> stores the pairs
  from left to right.
\<close>

definition py_dict :: "('k \<times> 'a) list \<Rightarrow> ('k \<times> 'a) list" where
  "py_dict pairs = fold (\<lambda>(k, v) d. AList.update k v d) pairs []"

section \<open>The interface of the training framework\<close>

type_synonym subject = string

datatype generator =
    MatchMismatchDataGenerator "string list" nat nat
  | DataGenerator "string list" nat

datatype callback = ModelCheckpoint string | CSVLogger string | EarlyStopping nat

text \<open>
  The values stored in a subject's dictionary: a scalar returned by
  \<^verbatim>\<open>model.evaluate\<close>, or the list stored under \<^verbatim>\<open>pearson_correlation_per_band\<close>.
\<close>

datatype 'v jvalue = Scalar 'v | ListOf "'v list"

type_synonym 'v metrics_dict = "(string \<times> 'v jvalue) list"
type_synonym 'v evaluation_dict = "(subject \<times> 'v metrics_dict) list"

text \<open>
  The functions the scripts call in TensorFlow, NumPy and the repository's own model and
  generator modules, none of which is part of the two scripts. A call that may raise
  returns a sum. \<open>'m\<close> is a model with its weights, \<open>'ds\<close> a dataset object, \<open>'v\<close>
  a floating-point number, \<open>'c\<close> the array of correlations per window and band.

  \<^item> \<open>create_tf_dataset g window_length equalizer hop_length batch_size\<close>: the flag says
    whether \<^verbatim>\<open>default_batch_equalizer_fn\<close> is passed (task 1) or \<^verbatim>\<open>None\<close> (task 2,
    which also passes the constants \<^verbatim>\<open>data_types\<close> and \<^verbatim>\<open>feature_dims\<close>).
  \<^item> \<open>evaluate model ds\<close> is \<^verbatim>\<open>model.evaluate(ds, verbose=2)\<close>, the list of the loss and
    the metric values; \<open>metrics_names model\<close> is \<^verbatim>\<open>model.metrics_names\<close>.
  \<^item> \<open>fit model train epochs val callbacks\<close> returns the trained model; Python updates
    the model object in place.
  \<^item> \<open>correlations model ds\<close> stands for lines 42 to 47 of \<^verbatim>\<open>vlaai_mel.py\<close>:
    reading the dataset, \<^verbatim>\<open>model.predict\<close>, \<^verbatim>\<open>pearson_tf_non_averaged\<close> and
    \<^verbatim>\<open>np.squeeze\<close>, which removes every axis of length one from the array.
  \<^item> \<open>mean_per_band c\<close> stands for \<^verbatim>\<open>np.mean(correlations, axis=0).tolist()\<close>: a list
    when the squeezed array has two axes, a single number when it has one, and an
    exception when it has none.
  \<^item> \<open>repr_float\<close> and \<open>encode_string\<close> are the two leaf encoders of \<^verbatim>\<open>json.dump\<close>.
\<close>

record ('m, 'ds, 'v, 'c) framework =
  dilation_model :: "nat \<Rightarrow> 'm"
  vlaai_compiled :: "'m"
  load_model :: "string \<Rightarrow> py_error + 'm"
  load_weights :: "'m \<Rightarrow> string \<Rightarrow> py_error + 'm"
  create_tf_dataset :: "generator \<Rightarrow> nat \<Rightarrow> bool \<Rightarrow> nat \<Rightarrow> nat \<Rightarrow> py_error + 'ds"
  fit :: "'m \<Rightarrow> 'ds \<Rightarrow> nat \<Rightarrow> 'ds \<Rightarrow> callback list \<Rightarrow> py_error + 'm"
  evaluate :: "'m \<Rightarrow> 'ds \<Rightarrow> py_error + 'v list"
  metrics_names :: "'m \<Rightarrow> string list"
  correlations :: "'m \<Rightarrow> 'ds \<Rightarrow> py_error + 'c"
  mean_per_band :: "'c \<Rightarrow> py_error + 'v jvalue"
  repr_float :: "'v \<Rightarrow> string"
  encode_string :: "string \<Rightarrow> string"

section \<open>Effects\<close>

text \<open>
  A run of a script is observed through the calls it makes that read or change the
  world outside the interpreter, in order. A step returns its outcome (an exception or
  a value) together with the calls it made; an exception ends the run.
\<close>

datatype 'ds call =
    Makedirs string
  | LoadModel string
  | LoadWeights string
  | Glob string string
  | CreateDataset generator nat
  | Fit 'ds 'ds "callback list"
  | Predict 'ds
  | Evaluate 'ds
  | JsonDump string string

type_synonym ('a, 'ds) run = "(py_error + 'a) \<times> 'ds call list"

definition ret :: "'a \<Rightarrow> ('a, 'ds) run" where
  "ret a = (Inr a, [])"

definition do_call :: "'ds call \<Rightarrow> py_error + 'a \<Rightarrow> ('a, 'ds) run" where
  "do_call c outcome = (outcome, [c])"

definition run_bind :: "('a, 'ds) run \<Rightarrow> ('a \<Rightarrow> ('b, 'ds) run) \<Rightarrow> ('b, 'ds) run" where
  "run_bind m f =
     (case fst m of
        Inl e \<Rightarrow> (Inl e, snd m)
      | Inr a \<Rightarrow> (fst (f a), snd m @ snd (f a)))"

text \<open>A step that makes no call.\<close>

definition lift :: "py_error + 'a \<Rightarrow> ('a, 'ds) run" where
  "lift outcome = (outcome, [])"

text \<open>The files a call writes.\<close>

fun callback_path :: "callback \<Rightarrow> string list" where
  "callback_path (ModelCheckpoint p) = [p]"
| "callback_path (CSVLogger p) = [p]"
| "callback_path (EarlyStopping n) = []"

fun written_paths :: "'ds call \<Rightarrow> string list" where
  "written_paths (Fit train val callbacks) = concat (map callback_path callbacks)"
| "written_paths (JsonDump p text) = [p]"
| "written_paths c = []"

fun is_json_dump :: "'ds call \<Rightarrow> bool" where
  "is_json_dump (JsonDump p text) = True"
| "is_json_dump c = False"

text \<open>The files a generator reads.\<close>

fun generator_files :: "generator \<Rightarrow> string list" where
  "generator_files (MatchMismatchDataGenerator files w s) = files"
| "generator_files (DataGenerator files w) = files"

text \<open>
  The calls of the training branch: the searches for train and validation files and
  \<^verbatim>\<open>model.fit\<close>.
\<close>

fun training_call :: "'ds call \<Rightarrow> bool" where
  "training_call (Fit train val callbacks) = True"
| "training_call (Glob folder pre) = (pre = ''train_-_'' \<or> pre = ''val_-_'')"
| "training_call c = False"

text \<open>
  The calls of the evaluation and of the serialization: the search for test files, a
  dataset built from some of the candidate test files, \<^verbatim>\<open>model.predict\<close>,
  \<^verbatim>\<open>model.evaluate\<close>, and \<^verbatim>\<open>json.dump\<close> into the results file.
\<close>

fun evaluation_call :: "string list \<Rightarrow> string \<Rightarrow> 'ds call \<Rightarrow> bool" where
  "evaluation_call candidates results_path (Glob folder pre) = (pre = ''test_-_'')"
| "evaluation_call candidates results_path (CreateDataset g b) =
     (set (generator_files g) \<subseteq> set candidates)"
| "evaluation_call candidates results_path (Predict ds) = True"
| "evaluation_call candidates results_path (Evaluate ds) = True"
| "evaluation_call candidates results_path (JsonDump p text) = (p = results_path)"
| "evaluation_call candidates results_path c = False"

section \<open>evaluate\_model\<close>

text \<open>
  The variables of \<^verbatim>\<open>evaluate_model\<close>: the argument \<open>test_dict\<close>, the local dictionary
  \<open>evaluation\<close>, and the calls made so far.
\<close>

record ('ds, 'v) em_vars =
  test_dict :: "(subject \<times> 'ds) list"
  evaluation :: "'v evaluation_dict"
  em_calls :: "'ds call list"

text \<open>
  The loop \<^verbatim>\<open>for subject, ds_test in test_dict.items()\<close>. \<open>body ds_test\<close> computes
  the dictionary stored for one subject. The first exception leaves the loop and the
  function; it is returned with the variables as they were at that moment.
\<close>

fun evaluate_loop ::
  "('ds \<Rightarrow> ('v metrics_dict, 'ds) run) \<Rightarrow> (subject \<times> 'ds) list \<Rightarrow> ('ds, 'v) em_vars
     \<Rightarrow> py_error option \<times> ('ds, 'v) em_vars" where
  "evaluate_loop body [] s = (None, s)"
| "evaluate_loop body ((subject, ds_test) # items) s =
     (case fst (body ds_test) of
        Inl e \<Rightarrow> (Some e, s\<lparr>em_calls := em_calls s @ snd (body ds_test)\<rparr>)
      | Inr d \<Rightarrow>
          evaluate_loop body items
            (s\<lparr>evaluation := AList.update subject d (evaluation s),
               em_calls := em_calls s @ snd (body ds_test)\<rparr>))"

text \<open>Lines 37 to 39 of \<^verbatim>\<open>dilated_convolutional_model.py\<close>.\<close>

definition body_task1 ::
  "('m, 'ds, 'v, 'c) framework \<Rightarrow> 'm \<Rightarrow> 'ds \<Rightarrow> ('v metrics_dict, 'ds) run" where
  "body_task1 fw model ds_test =
     run_bind (do_call (Evaluate ds_test) (evaluate fw model ds_test)) (\<lambda>results.
     ret (py_dict (zip (metrics_names fw model) (map Scalar results))))"

text \<open>Lines 42 to 56 of \<^verbatim>\<open>vlaai_mel.py\<close>.\<close>

definition body_task2 ::
  "('m, 'ds, 'v, 'c) framework \<Rightarrow> 'm \<Rightarrow> 'ds \<Rightarrow> ('v metrics_dict, 'ds) run" where
  "body_task2 fw model ds_test =
     run_bind (do_call (Predict ds_test) (correlations fw model ds_test)) (\<lambda>corr.
     run_bind (do_call (Evaluate ds_test) (evaluate fw model ds_test)) (\<lambda>results.
     run_bind (lift (mean_per_band fw corr)) (\<lambda>per_band.
     ret (AList.update ''pearson_correlation_per_band'' per_band
            (py_dict (zip (metrics_names fw model) (map Scalar results)))))))"

definition evaluate_model_task1 ::
  "('m, 'ds, 'v, 'c) framework \<Rightarrow> 'm \<Rightarrow> (subject \<times> 'ds) list
     \<Rightarrow> py_error option \<times> ('ds, 'v) em_vars" where
  "evaluate_model_task1 fw model td =
     evaluate_loop (body_task1 fw model) td \<lparr>test_dict = td, evaluation = [], em_calls = []\<rparr>"

definition evaluate_model_task2 ::
  "('m, 'ds, 'v, 'c) framework \<Rightarrow> 'm \<Rightarrow> (subject \<times> 'ds) list
     \<Rightarrow> py_error option \<times> ('ds, 'v) em_vars" where
  "evaluate_model_task2 fw model td =
     evaluate_loop (body_task2 fw model) td \<lparr>test_dict = td, evaluation = [], em_calls = []\<rparr>"

text \<open>
  What the caller of \<^verbatim>\<open>evaluate_model\<close> sees: the exception, or the returned
  \<open>evaluation\<close>, and the calls.
\<close>

definition returned :: "py_error option \<times> ('ds, 'v) em_vars \<Rightarrow> ('v evaluation_dict, 'ds) run" where
  "returned r =
     (case fst r of
        Some e \<Rightarrow> (Inl e, em_calls (snd r))
      | None \<Rightarrow> (Inr (evaluation (snd r)), em_calls (snd r)))"

section \<open>Writing the results\<close>

text \<open>
  \<^verbatim>\<open>json.dump(evaluation, fp)\<close> with the default separators: a dictionary is written
  as its items in order, between braces; a list between brackets.
\<close>

fun join_with :: "string \<Rightarrow> string list \<Rightarrow> string" where
  "join_with sep [] = []"
| "join_with sep [x] = x"
| "join_with sep (x # y # ys) = x @ sep @ join_with sep (y # ys)"

definition json_object :: "('m, 'ds, 'v, 'c) framework \<Rightarrow> (string \<times> string) list \<Rightarrow> string" where
  "json_object fw items =
     ''{'' @ join_with '', '' (map (\<lambda>(k, t). encode_string fw k @ '': '' @ t) items) @ ''}''"

fun json_value :: "('m, 'ds, 'v, 'c) framework \<Rightarrow> 'v jvalue \<Rightarrow> string" where
  "json_value fw (Scalar v) = repr_float fw v"
| "json_value fw (ListOf vs) = ''['' @ join_with '', '' (map (repr_float fw) vs) @ '']''"

definition json_dumps :: "('m, 'ds, 'v, 'c) framework \<Rightarrow> 'v evaluation_dict \<Rightarrow> string" where
  "json_dumps fw ev =
     json_object fw
       (map (\<lambda>(sub, d). (sub, json_object fw (map (\<lambda>(k, v). (k, json_value fw v)) d))) ev)"

section \<open>The two scripts\<close>

text \<open>
  What a script reads from its surroundings. \<open>only_evaluate\<close> is a variable that both
  scripts set to \<^verbatim>\<open>False\<close> in their parameter block; it is an input here so that both
  branches of \<^verbatim>\<open>if only_evaluate\<close> are covered. \<open>experiments_folder\<close> is the directory
  of the script file, \<open>config\<close> the dictionary read from \<^verbatim>\<open>config.json\<close>, \<open>argv\<close>
  the command line.
\<close>

record env =
  only_evaluate :: bool
  experiments_folder :: string
  config :: "string \<Rightarrow> string option"
  fs :: filesystem
  argv :: "string list"

definition window_length :: nat where "window_length = 5 * 64"
definition hop_length :: nat where "hop_length = 64"
definition spacing :: nat where "spacing = 64"
definition epochs :: nat where "epochs = 100"
definition patience_task1 :: nat where "patience_task1 = 5"
definition patience_task2 :: nat where "patience_task2 = 10"
definition batch_size_task1 :: nat where "batch_size_task1 = 64"
definition batch_size_task2 :: nat where "batch_size_task2 = 10"
definition training_log_filename :: string where "training_log_filename = ''training_log.csv''"
definition results_filename :: string where "results_filename = ''eval.json''"

text \<open>\<^verbatim>\<open>config[k]\<close>\<close>

definition py_getitem :: "(string \<Rightarrow> string option) \<Rightarrow> string \<Rightarrow> py_error + string" where
  "py_getitem d k = (case d k of None \<Rightarrow> Inl KeyError | Some v \<Rightarrow> Inr v)"

text \<open>\<^verbatim>\<open>os.path.join(config["dataset_folder"], config["split_folder"])\<close>\<close>

definition data_folder_task1 :: "(string \<Rightarrow> string option) \<Rightarrow> py_error + string" where
  "data_folder_task1 cfg =
     (case py_getitem cfg ''dataset_folder'' of
        Inl e \<Rightarrow> Inl e
      | Inr d \<Rightarrow>
          (case py_getitem cfg ''split_folder'' of
             Inl e \<Rightarrow> Inl e
           | Inr s \<Rightarrow> Inr (py_join d s)))"

text \<open>
  \<^verbatim>\<open>os.path.join(config["dataset_folder"], config["derivatives_folder"], config["split_folder"])\<close>
\<close>

definition data_folder_task2 :: "(string \<Rightarrow> string option) \<Rightarrow> py_error + string" where
  "data_folder_task2 cfg =
     (case py_getitem cfg ''dataset_folder'' of
        Inl e \<Rightarrow> Inl e
      | Inr d \<Rightarrow>
          (case py_getitem cfg ''derivatives_folder'' of
             Inl e \<Rightarrow> Inl e
           | Inr v \<Rightarrow>
               (case py_getitem cfg ''split_folder'' of
                  Inl e \<Rightarrow> Inl e
                | Inr s \<Rightarrow> Inr (py_join (py_join d v) s))))"

definition find_files :: "env \<Rightarrow> string \<Rightarrow> string \<Rightarrow> string list \<Rightarrow> (string list, 'ds) run" where
  "find_files e folder pre features =
     do_call (Glob folder pre) (split_files (fs e) folder pre features)"

definition make_dataset ::
  "('m, 'ds, 'v, 'c) framework \<Rightarrow> generator \<Rightarrow> bool \<Rightarrow> nat \<Rightarrow> ('ds, 'ds) run" where
  "make_dataset fw g equalizer batch_size =
     do_call (CreateDataset g batch_size)
       (create_tf_dataset fw g window_length equalizer hop_length batch_size)"

text \<open>
  Lines 79 to 123 of \<^verbatim>\<open>dilated_convolutional_model.py\<close>: the model is loaded from
  \<^verbatim>\<open>model.h5\<close>, or trained on the train and validation files.
\<close>

definition fit_or_load_task1 ::
  "env \<Rightarrow> ('m, 'ds, 'v, 'c) framework \<Rightarrow> string \<Rightarrow> string \<Rightarrow> ('m, 'ds) run" where
  "fit_or_load_task1 e fw data_folder results_folder =
     (let model = dilation_model fw window_length;
          model_path = py_join results_folder ''model.h5''
      in if only_evaluate e then do_call (LoadModel model_path) (load_model fw model_path)
         else
           run_bind (find_files e data_folder ''train_-_'' features_task1) (\<lambda>train_files.
           run_bind (make_dataset fw (MatchMismatchDataGenerator train_files window_length spacing)
                       True batch_size_task1) (\<lambda>dataset_train.
           run_bind (find_files e data_folder ''val_-_'' features_task1) (\<lambda>val_files.
           run_bind (make_dataset fw (MatchMismatchDataGenerator val_files window_length spacing)
                       True batch_size_task1) (\<lambda>dataset_val.
           let callbacks =
                 [ModelCheckpoint model_path,
                  CSVLogger (py_join results_folder training_log_filename),
                  EarlyStopping patience_task1]
           in do_call (Fit dataset_train dataset_val callbacks)
                (fit fw model dataset_train epochs dataset_val callbacks))))))"

text \<open>Lines 105 to 132 of \<^verbatim>\<open>vlaai_mel.py\<close>.\<close>

definition fit_or_load_task2 ::
  "env \<Rightarrow> ('m, 'ds, 'v, 'c) framework \<Rightarrow> string \<Rightarrow> string \<Rightarrow> ('m, 'ds) run" where
  "fit_or_load_task2 e fw data_folder results_folder =
     (let model = vlaai_compiled fw;
          model_path = py_join results_folder ''model.h5''
      in if only_evaluate e then do_call (LoadWeights model_path) (load_weights fw model model_path)
         else
           run_bind (find_files e (py_join data_folder ''train'') ''train_-_'' features_task2)
             (\<lambda>train_files.
           run_bind (make_dataset fw (DataGenerator train_files window_length)
                       False batch_size_task2) (\<lambda>dataset_train.
           run_bind (find_files e (py_join data_folder ''val'') ''val_-_'' features_task2)
             (\<lambda>val_files.
           run_bind (make_dataset fw (DataGenerator val_files window_length)
                       False batch_size_task2) (\<lambda>dataset_val.
           let callbacks =
                 [ModelCheckpoint model_path,
                  CSVLogger (py_join results_folder training_log_filename),
                  EarlyStopping patience_task2]
           in do_call (Fit dataset_train dataset_val callbacks)
                (fit fw model dataset_train epochs dataset_val callbacks))))))"

text \<open>
  The loop \<^verbatim>\<open>for sub in subjects\<close> that fills \<open>datasets_test\<close>; \<open>mk\<close> builds the
  dataset of one subject from \<open>files_test_sub\<close>.
\<close>

fun datasets_loop ::
  "(string list \<Rightarrow> ('ds, 'ds) run) \<Rightarrow> string list \<Rightarrow> subject list \<Rightarrow> (subject \<times> 'ds) list
     \<Rightarrow> ((subject \<times> 'ds) list, 'ds) run" where
  "datasets_loop mk test_files [] datasets_test = ret datasets_test"
| "datasets_loop mk test_files (sub # subs) datasets_test =
     run_bind (mk (files_test_sub test_files sub)) (\<lambda>ds.
     datasets_loop mk test_files subs (AList.update sub ds datasets_test))"

text \<open>Lines 127 to 144 of \<^verbatim>\<open>dilated_convolutional_model.py\<close>.\<close>

definition datasets_test_task1 ::
  "env \<Rightarrow> ('m, 'ds, 'v, 'c) framework \<Rightarrow> string \<Rightarrow> ((subject \<times> 'ds) list, 'ds) run" where
  "datasets_test_task1 e fw data_folder =
     run_bind (find_files e data_folder ''test_-_'' features_task1) (\<lambda>test_files.
     run_bind (lift (subjects test_files)) (\<lambda>subs.
     datasets_loop
       (\<lambda>files. make_dataset fw (MatchMismatchDataGenerator files window_length spacing) True 1)
       test_files subs []))"

text \<open>Lines 136 to 144 of \<^verbatim>\<open>vlaai_mel.py\<close>.\<close>

definition datasets_test_task2 ::
  "env \<Rightarrow> ('m, 'ds, 'v, 'c) framework \<Rightarrow> string \<Rightarrow> ((subject \<times> 'ds) list, 'ds) run" where
  "datasets_test_task2 e fw data_folder =
     run_bind (find_files e (py_join data_folder ''test'') ''test_-_'' features_task2)
       (\<lambda>test_files.
     run_bind (lift (subjects test_files)) (\<lambda>subs.
     datasets_loop (\<lambda>files. make_dataset fw (DataGenerator files window_length) False 64)
       test_files subs []))"

text \<open>
  Lines 146 to 152 of both scripts: the evaluation is written to \<^verbatim>\<open>eval.json\<close> in the
  results folder. \<open>outcome\<close> is what \<^verbatim>\<open>evaluate_model\<close> gave.
\<close>

definition dump_results ::
  "('m, 'ds, 'v, 'c) framework \<Rightarrow> string \<Rightarrow> ('v evaluation_dict, 'ds) run
     \<Rightarrow> ('v evaluation_dict, 'ds) run" where
  "dump_results fw results_folder outcome =
     run_bind outcome (\<lambda>ev.
     run_bind (do_call (JsonDump (py_join results_folder results_filename) (json_dumps fw ev))
                 (Inr ())) (\<lambda>u.
     ret ev))"

text \<open>The script \<^verbatim>\<open>dilated_convolutional_model.py\<close>.\<close>

definition main_task1 ::
  "env \<Rightarrow> ('m, 'ds, 'v, 'c) framework \<Rightarrow> ('v evaluation_dict, 'ds) run" where
  "main_task1 e fw =
     run_bind (lift (data_folder_task1 (config e))) (\<lambda>data_folder.
     let results_folder =
           py_join (experiments_folder e) ''results_dilated_convolutional_model''
     in
     run_bind (do_call (Makedirs results_folder) (Inr ())) (\<lambda>u.
     run_bind (fit_or_load_task1 e fw data_folder results_folder) (\<lambda>model.
     run_bind (datasets_test_task1 e fw data_folder) (\<lambda>datasets_test.
     dump_results fw results_folder
       (returned (evaluate_model_task1 fw model datasets_test))))))"

text \<open>The script \<^verbatim>\<open>vlaai_mel.py\<close>.\<close>

definition main_task2 ::
  "env \<Rightarrow> ('m, 'ds, 'v, 'c) framework \<Rightarrow> ('v evaluation_dict, 'ds) run" where
  "main_task2 e fw =
     run_bind (lift (data_folder_task2 (config e))) (\<lambda>data_folder.
     let results_folder = py_join (experiments_folder e) ''results_vlaai_mel''
     in
     run_bind (do_call (Makedirs results_folder) (Inr ())) (\<lambda>u.
     run_bind (fit_or_load_task2 e fw data_folder results_folder) (\<lambda>model.
     run_bind (datasets_test_task2 e fw data_folder) (\<lambda>datasets_test.
     dump_results fw results_folder
       (returned (evaluate_model_task2 fw model datasets_test))))))"

section \<open>A small instance\<close>

text \<open>
  A framework and an environment on which the scripts can be run by evaluation. A
  dataset is the list of its files; evaluating a dataset of fewer than two files raises.
\<close>

definition demo_framework :: "(nat, string list, int, int list) framework" where
  "demo_framework =
     \<lparr>dilation_model = (\<lambda>w. 0),
      vlaai_compiled = 0,
      load_model = (\<lambda>p. Inr 1),
      load_weights = (\<lambda>m p. Inr 1),
      create_tf_dataset = (\<lambda>g w equalizer h b. Inr (generator_files g)),
      fit = (\<lambda>m train n val callbacks. Inr 2),
      evaluate = (\<lambda>m ds. if length ds < 2 then Inl (RuntimeError ''incomplete'')
                           else Inr [int (length ds), 0]),
      metrics_names = (\<lambda>m. [''loss'', ''acc'']),
      correlations = (\<lambda>m ds. Inr [1, 2]),
      mean_per_band = (\<lambda>c. Inr (ListOf c)),
      repr_float = (\<lambda>v. if v = 0 then ''0.0'' else ''1.0''),
      encode_string = (\<lambda>s. [CHR 0x22] @ s @ [CHR 0x22])\<rparr>"

definition demo_config :: "string \<Rightarrow> string option" where
  "demo_config =
     [''dataset_folder'' \<mapsto> ''/d'', ''derivatives_folder'' \<mapsto> ''v'', ''split_folder'' \<mapsto> ''s'']"

definition demo_fs :: filesystem where
  "demo_fs =
     \<lparr>listdir = (\<lambda>folder.
        if folder = ''/d/s'' \<or> folder = ''/d/v/s/test''
        then [''test_-_a_-_eeg.npy'', ''test_-_a_-_envelope.npy'', ''test_-_a_-_mel.npy'',
              ''test_-_a_-_eeg.txt'', ''train_-_a_-_eeg.npy'']
        else []),
      glob_dirs = (\<lambda>pat. [])\<rparr>"

definition demo_env :: env where
  "demo_env =
     \<lparr>only_evaluate = True, experiments_folder = ''/x'', config = demo_config,
      fs = demo_fs, argv = []\<rparr>"

text \<open>The same surroundings with no file at all, and with one subject that has one file.\<close>

definition empty_env :: env where
  "empty_env = demo_env\<lparr>fs := \<lparr>listdir = (\<lambda>folder. []), glob_dirs = (\<lambda>pat. [])\<rparr>\<rparr>"

definition incomplete_env :: env where
  "incomplete_env =
     demo_env\<lparr>fs := \<lparr>listdir = (\<lambda>folder. [''test_-_b_-_eeg.npy'']),
                           glob_dirs = (\<lambda>pat. [])\<rparr>\<rparr>"

text \<open>
  Surroundings in training mode whose dataset folder \<^verbatim>\<open>/d/g[1]\<close> contains a pattern
  character: \<^verbatim>\<open>glob\<close> reads it as the pattern that matches the directory
  \<^verbatim>\<open>/d/g1\<close>.
\<close>

definition pattern_fs :: filesystem where
  "pattern_fs =
     \<lparr>listdir = (\<lambda>folder.
        if folder = ''/d/g[1]/s'' then [''train_-_x_-_eeg.npy'']
        else if folder = ''/d/g1/s''
        then [''train_-_z_-_eeg.npy'', ''train_-_z_-_mel.npy'', ''val_-_z_-_envelope.npy'',
              ''test_-_z_-_eeg.npy'']
        else []),
      glob_dirs = (\<lambda>pat. if pat = ''/d/g[1]/s'' then [''/d/g1/s''] else [])\<rparr>"

definition pattern_env :: env where
  "pattern_env =
     \<lparr>only_evaluate = False, experiments_folder = ''/x'',
      config = [''dataset_folder'' \<mapsto> ''/d/g[1]'', ''split_folder'' \<mapsto> ''s''],
      fs = pattern_fs, argv = []\<rparr>"

text \<open>
  A framework whose datasets are lists of windows. A window is given by the correlation,
  in each band, between its labels and the reconstruction of the model, which is what
  \<^verbatim>\<open>pearson_tf_non_averaged\<close> computes for it; integers stand for the floating-point
  numbers. The array of all windows has the axes (window, 1, band).

  \<open>np_squeeze\<close> removes every axis of length one: the middle axis always, the window
  axis when there is one window, the band axis when there is one band.
  \<open>np_mean_tolist\<close> is \<^verbatim>\<open>np.mean(a, axis=0).tolist()\<close> on the squeezed array: the list
  of the means of the columns of an array with two axes, the mean of an array with one
  axis, and an exception for an array with no axis.
\<close>

datatype 'v squeezed = Dim0 'v | Dim1 "'v list" | Dim2 "'v list list"

definition np_squeeze :: "'v list list \<Rightarrow> 'v squeezed" where
  "np_squeeze rows =
     (case rows of
        [] \<Rightarrow> Dim2 []
      | [[x]] \<Rightarrow> Dim0 x
      | [row] \<Rightarrow> Dim1 row
      | _ \<Rightarrow> if list_all (\<lambda>row. length row = 1) rows then Dim1 (map hd rows) else Dim2 rows)"

definition int_mean :: "int list \<Rightarrow> int" where
  "int_mean xs = sum_list xs div int (length xs)"

fun np_mean_tolist :: "int squeezed \<Rightarrow> py_error + int jvalue" where
  "np_mean_tolist (Dim0 x) = Inl AxisError"
| "np_mean_tolist (Dim1 xs) = Inr (Scalar (int_mean xs))"
| "np_mean_tolist (Dim2 rows) = Inr (ListOf (map int_mean (transpose rows)))"

definition window_framework :: "(nat, int list list, int, int squeezed) framework" where
  "window_framework =
     \<lparr>dilation_model = (\<lambda>w. 0),
      vlaai_compiled = 0,
      load_model = (\<lambda>p. Inr 1),
      load_weights = (\<lambda>m p. Inr 1),
      create_tf_dataset = (\<lambda>g w equalizer h b. Inr []),
      fit = (\<lambda>m train n val callbacks. Inr 2),
      evaluate = (\<lambda>m ds. Inr [int (length ds), 0]),
      metrics_names = (\<lambda>m. [''loss'', ''pearson_metric_cut'']),
      correlations = (\<lambda>m ds. if ds = [] then Inl (RuntimeError ''empty'')
                               else Inr (np_squeeze ds)),
      mean_per_band = np_mean_tolist,
      repr_float = (\<lambda>v. ''0.0''),
      encode_string = (\<lambda>s. [CHR 0x22] @ s @ [CHR 0x22])\<rparr>"

text \<open>A model that reports the metric name \<open>loss\<close> twice.\<close>

definition dup_framework :: "(nat, string list, int, int list) framework" where
  "dup_framework =
     demo_framework\<lparr>evaluate := (\<lambda>m ds. Inr [5, 6, 7]),
                    metrics_names := (\<lambda>m. [''loss'', ''acc'', ''loss'', ''top''])\<rparr>"

section \<open>Facts about the string operations\<close>

lemma py_contains_sublist: "py_contains sub s = sublist sub s"
  by (induction s) (simp_all add: sublist_Cons_right)

lemma py_split_aux_nonempty: "py_split_aux sep cur s \<noteq> []"
  by (induction sep cur s rule: py_split_aux.induct) auto

lemma py_split_nonempty: "py_split sep s \<noteq> []"
  by (simp add: py_split_def py_split_aux_nonempty)

lemma py_index_last: "xs \<noteq> [] \<Longrightarrow> py_index xs (- 1) = Inr (last xs)"
  by (cases xs rule: rev_cases) (auto simp: py_index_def nth_append)

lemma py_index_first: "xs \<noteq> [] \<Longrightarrow> py_index xs 0 = Inr (hd xs)"
  by (cases xs) (auto simp: py_index_def)

lemma hd_py_split_aux_dot:
  "hd (py_split_aux ''.'' cur s) = cur @ takeWhile (\<lambda>c. c \<noteq> CHR ''.'') s"
  by (induction "''.''" cur s rule: py_split_aux.induct) auto

lemma hd_py_split_dot: "hd (py_split ''.'' s) = takeWhile (\<lambda>c. c \<noteq> CHR ''.'') s"
  by (simp add: py_split_def hd_py_split_aux_dot)

lemma feature_of_total:
  "feature_of x =
     Inr (takeWhile (\<lambda>c. c \<noteq> CHR ''.'') (last (py_split ''_-_'' (basename x))))"
  by (simp add: feature_of_def py_index_last py_index_first py_split_nonempty hd_py_split_dot)

lemma select_files_filter:
  "select_files features xs =
     Inr (filter (\<lambda>x. takeWhile (\<lambda>c. c \<noteq> CHR ''.'') (last (py_split ''_-_'' (basename x)))
                        \<in> set features) xs)"
  by (induction xs) (simp_all add: feature_of_total)

lemma basename_py_join:
  "CHR ''/'' \<notin> set n \<Longrightarrow> basename (py_join folder n) = n"
proof -
  assume n: "CHR ''/'' \<notin> set n"
  then have tw: "takeWhile (\<lambda>c. c \<noteq> CHR ''/'') (rev n) = rev n"
    by (auto intro: takeWhile_eq_all_conv [THEN iffD2])
  have np: "\<not> prefix ''/'' n"
    using n by (cases n) auto
  have a: "basename (folder @ ''/'' @ n) = n"
    by (simp add: basename_def takeWhile_tail tw)
  have b: "folder = [] \<or> suffix ''/'' folder \<Longrightarrow> basename (folder @ n) = n"
  proof (cases "folder = []")
    case True
    then show ?thesis by (simp add: basename_def tw)
  next
    case False
    assume "folder = [] \<or> suffix ''/'' folder"
    with False obtain zs where "folder = zs @ ''/''"
      by (auto simp: suffix_def)
    then show ?thesis by (simp add: basename_def takeWhile_tail tw)
  qed
  show ?thesis
    using np a b by (auto simp: py_join_def)
qed

section \<open>Facts about runs, dictionaries and the loop of evaluate\_model\<close>

lemma run_bind_Inl: "fst m = Inl e \<Longrightarrow> run_bind m f = (Inl e, snd m)"
  by (simp add: run_bind_def)

lemma run_bind_Inr: "fst m = Inr a \<Longrightarrow> run_bind m f = (fst (f a), snd m @ snd (f a))"
  by (simp add: run_bind_def)

lemma run_bind_succeeds:
  "fst (run_bind m f) = Inr b \<Longrightarrow>
     \<exists>a. fst m = Inr a \<and> fst (f a) = Inr b \<and> snd (run_bind m f) = snd m @ snd (f a)"
  by (cases "fst m") (simp_all add: run_bind_def)

lemma run_bind_calls:
  "c \<in> set (snd (run_bind m f)) \<Longrightarrow>
     c \<in> set (snd m) \<or> (\<exists>a. fst m = Inr a \<and> c \<in> set (snd (f a)))"
  by (cases "fst m") (auto simp: run_bind_def)

lemma update_keys_set: "fst ` set (AList.update k v d) = insert k (fst ` set d)"
  using AList.dom_update [of k v d] by (simp add: dom_map_of_conv_image_fst)

lemma fold_update_keys:
  "fst ` set (fold (\<lambda>(k, v) d. AList.update k v d) ps d) = fst ` set d \<union> fst ` set ps"
proof (induction ps arbitrary: d)
  case Nil
  show ?case by simp
next
  case (Cons p ps)
  obtain k v where p: "p = (k, v)" by (cases p)
  have "fst ` set (fold (\<lambda>(k, v) d. AList.update k v d) (p # ps) d) =
          fst ` set (AList.update k v d) \<union> fst ` set ps"
    using Cons.IH [of "AList.update k v d"] by (simp add: p)
  then show ?case by (simp add: p update_keys_set)
qed

lemma fold_update_distinct:
  "distinct (map fst d) \<Longrightarrow> distinct (map fst (fold (\<lambda>(k, v) d. AList.update k v d) ps d))"
  by (induction ps arbitrary: d) (auto simp: AList.distinct_update)

lemma fold_update_map_of:
  "map_of (fold (\<lambda>(k, v) d. AList.update k v d) ps d) = map_of d ++ map_of (rev ps)"
  by (induction ps arbitrary: d) (auto simp: AList.update_conv' map_add_upd_left)

lemma py_dict_keys: "fst ` set (py_dict ps) = fst ` set ps"
  by (simp add: py_dict_def fold_update_keys)

lemma py_dict_distinct: "distinct (map fst (py_dict ps))"
  by (simp add: py_dict_def fold_update_distinct)

lemma py_dict_map_of: "map_of (py_dict ps) = map_of (rev ps)"
  by (simp add: py_dict_def fold_update_map_of)

lemma py_dict_length: "length (py_dict ps) = card (set (map fst ps))"
proof -
  have "length (py_dict ps) = length (map fst (py_dict ps))" by simp
  also have "\<dots> = card (set (map fst (py_dict ps)))"
    using py_dict_distinct [of ps] by (simp only: distinct_card)
  finally show ?thesis by (simp add: py_dict_keys)
qed

lemma evaluate_loop_test_dict:
  "test_dict (snd (evaluate_loop body items s)) = test_dict s"
  by (induction body items s rule: evaluate_loop.induct) (auto split: sum.splits)

lemma evaluate_loop_succeeds_iff:
  "fst (evaluate_loop body items s) = None \<longleftrightarrow>
     (\<forall>ds \<in> set (map snd items). \<exists>d. fst (body ds) = Inr d)"
  by (induction body items s rule: evaluate_loop.induct) (auto split: sum.splits)

lemma evaluate_loop_keys:
  "fst (evaluate_loop body items s) = None \<Longrightarrow>
     set (map fst (evaluation (snd (evaluate_loop body items s)))) =
       set (map fst (evaluation s)) \<union> set (map fst items)"
  by (induction body items s rule: evaluate_loop.induct)
     (auto simp: AList.update_keys split: sum.splits if_splits)

lemma evaluate_loop_distinct:
  "distinct (map fst (evaluation s)) \<Longrightarrow>
     distinct (map fst (evaluation (snd (evaluate_loop body items s))))"
  by (induction body items s rule: evaluate_loop.induct)
     (auto simp: AList.distinct_update split: sum.splits)

lemma evaluate_loop_map_of_other:
  "sub \<notin> set (map fst items) \<Longrightarrow>
     map_of (evaluation (snd (evaluate_loop body items s))) sub = map_of (evaluation s) sub"
  by (induction body items s rule: evaluate_loop.induct)
     (auto simp: AList.update_conv' split: sum.splits)

lemma evaluate_loop_lookup:
  "fst (evaluate_loop body items s) = None \<Longrightarrow> distinct (map fst items) \<Longrightarrow>
   (sub, ds) \<in> set items \<Longrightarrow>
     \<exists>d. fst (body ds) = Inr d \<and> map_of (evaluation (snd (evaluate_loop body items s))) sub = Some d"
proof (induction body items s rule: evaluate_loop.induct)
  case (1 body s)
  then show ?case by simp
next
  case (2 body subject ds_test items s)
  then show ?case
    by (cases "fst (body ds_test)")
       (auto simp: evaluate_loop_map_of_other AList.update_conv' rev_image_eqI)
qed


lemma evaluate_loop_calls_success:
  "fst (evaluate_loop body items s) = None \<Longrightarrow>
     em_calls (snd (evaluate_loop body items s)) =
       em_calls s @ concat (map (\<lambda>item. snd (body (snd item))) items)"
  by (induction body items s rule: evaluate_loop.induct) (simp_all split: sum.splits)

lemma evaluate_loop_raises:
  "fst (evaluate_loop body items s) = Some e \<Longrightarrow>
     \<exists>before sub ds after.
        items = before @ (sub, ds) # after \<and>
        (\<forall>item \<in> set before. \<exists>d. fst (body (snd item)) = Inr d) \<and>
        fst (body ds) = Inl e \<and>
        em_calls (snd (evaluate_loop body items s)) =
          em_calls s @ concat (map (\<lambda>item. snd (body (snd item))) (before @ [(sub, ds)]))"
proof (induction body items s rule: evaluate_loop.induct)
  case (1 body s)
  then show ?case by simp
next
  case (2 body subject ds_test items s)
  show ?case
  proof (cases "fst (body ds_test)")
    case (Inl e')
    with "2.prems" have "e' = e" by simp
    with Inl have "(subject, ds_test) # items = [] @ (subject, ds_test) # items \<and>
        (\<forall>item \<in> set []. \<exists>d. fst (body (snd item)) = Inr d) \<and>
        fst (body ds_test) = Inl e \<and>
        em_calls (snd (evaluate_loop body ((subject, ds_test) # items) s)) =
          em_calls s @ concat (map (\<lambda>item. snd (body (snd item))) ([] @ [(subject, ds_test)]))"
      by simp
    then show ?thesis by blast
  next
    case (Inr d)
    let ?s = "s\<lparr>evaluation := AList.update subject d (evaluation s),
                 em_calls := em_calls s @ snd (body ds_test)\<rparr>"
    have step: "evaluate_loop body ((subject, ds_test) # items) s = evaluate_loop body items ?s"
      using Inr by simp
    with "2.prems" have "fst (evaluate_loop body items ?s) = Some e" by simp
    from "2.IH" [OF Inr this] obtain before sub ds after where
      a: "items = before @ (sub, ds) # after"
      and b: "\<forall>item \<in> set before. \<exists>d. fst (body (snd item)) = Inr d"
      and c: "fst (body ds) = Inl e"
      and d: "em_calls (snd (evaluate_loop body items ?s)) =
          em_calls ?s @ concat (map (\<lambda>item. snd (body (snd item))) (before @ [(sub, ds)]))"
      by blast
    have "(subject, ds_test) # items = ((subject, ds_test) # before) @ (sub, ds) # after"
      using a by simp
    moreover have "\<forall>item \<in> set ((subject, ds_test) # before). \<exists>d. fst (body (snd item)) = Inr d"
      using b Inr by simp
    moreover have "em_calls (snd (evaluate_loop body ((subject, ds_test) # items) s)) =
          em_calls s @ concat (map (\<lambda>item. snd (body (snd item)))
                                 (((subject, ds_test) # before) @ [(sub, ds)]))"
      unfolding step d by simp
    ultimately show ?thesis using c by blast
  qed
qed

lemma map_of_rev_zip_last:
  "j < length names \<Longrightarrow> j < length vals \<Longrightarrow>
   \<forall>i. j < i \<and> i < length names \<and> i < length vals \<longrightarrow> names ! i \<noteq> names ! j \<Longrightarrow>
     map_of (rev (zip names vals)) (names ! j) = Some (vals ! j)"
proof (induction names arbitrary: vals j)
  case Nil
  then show ?case by simp
next
  case (Cons n names)
  then obtain v vals' where vals: "vals = v # vals'" by (cases vals) auto
  show ?case
  proof (cases j)
    case 0
    have "n \<notin> fst ` set (zip names vals')"
    proof
      assume "n \<in> fst ` set (zip names vals')"
      then obtain w where "(n, w) \<in> set (zip names vals')" by auto
      then obtain i where i: "i < length names" "i < length vals'" "names ! i = n"
        by (auto simp: set_zip)
      with Cons.prems(3) [rule_format, of "Suc i"] 0 vals show False by simp
    qed
    then have "map_of (rev (zip names vals')) n = None"
      by (simp add: map_of_eq_None_iff)
    then show ?thesis using 0 vals by (simp add: map_add_def)
  next
    case (Suc j')
    have "map_of (rev (zip names vals')) (names ! j') = Some (vals' ! j')"
    proof (rule Cons.IH)
      show "j' < length names" using Cons.prems(1) Suc by simp
      show "j' < length vals'" using Cons.prems(2) Suc vals by simp
      show "\<forall>i. j' < i \<and> i < length names \<and> i < length vals' \<longrightarrow> names ! i \<noteq> names ! j'"
      proof (intro allI impI)
        fix i assume "j' < i \<and> i < length names \<and> i < length vals'"
        with Cons.prems(3) [rule_format, of "Suc i"] Suc vals show "names ! i \<noteq> names ! j'" by simp
      qed
    qed
    then show ?thesis using Suc vals by (simp add: map_add_def)
  qed
qed

lemma py_dict_zip_length:
  "length (py_dict (zip names vals)) = card (set (take (length vals) names))"
proof -
  have "map fst (zip names vals) = take (length vals) names"
    by (simp add: map_fst_zip_take min_def)
  then have "fst ` set (zip names vals) = set (take (length vals) names)"
    by (metis set_map)
  then show ?thesis by (simp add: py_dict_length)
qed

lemma py_dict_zip_length_distinct:
  "distinct (take (length vals) names) \<Longrightarrow>
     length (py_dict (zip names vals)) = min (length names) (length vals)"
  by (simp add: py_dict_zip_length distinct_card min.commute)

lemma body_task1_result:
  "fst (body_task1 fw model ds) =
     (case evaluate fw model ds of
        Inl e \<Rightarrow> Inl e
      | Inr results \<Rightarrow> Inr (py_dict (zip (metrics_names fw model) (map Scalar results))))"
  by (simp add: body_task1_def run_bind_def do_call_def ret_def split: sum.splits)

lemma body_task2_result:
  "fst (body_task2 fw model ds) =
     (case correlations fw model ds of
        Inl e \<Rightarrow> Inl e
      | Inr corr \<Rightarrow>
         (case evaluate fw model ds of
            Inl e \<Rightarrow> Inl e
          | Inr results \<Rightarrow>
             (case mean_per_band fw corr of
                Inl e \<Rightarrow> Inl e
              | Inr per_band \<Rightarrow>
                  Inr (AList.update ''pearson_correlation_per_band'' per_band
                        (py_dict (zip (metrics_names fw model) (map Scalar results)))))))"
  by (simp add: body_task2_def run_bind_def do_call_def ret_def lift_def split: sum.splits)

lemma body_task1_calls: "snd (body_task1 fw model ds) = [Evaluate ds]"
  by (simp add: body_task1_def run_bind_def do_call_def ret_def split: sum.splits)

lemma body_task2_calls:
  "snd (body_task2 fw model ds) =
     (case correlations fw model ds of Inl e \<Rightarrow> [Predict ds] | Inr corr \<Rightarrow> [Predict ds, Evaluate ds])"
  by (simp add: body_task2_def run_bind_def do_call_def ret_def lift_def split: sum.splits)


section \<open>Facts about the stages of the scripts\<close>

lemma run_bind_all_calls:
  "list_all P (snd m) \<Longrightarrow> (\<And>a. fst m = Inr a \<Longrightarrow> list_all P (snd (f a))) \<Longrightarrow>
     list_all P (snd (run_bind m f))"
  by (cases "fst m") (simp_all add: run_bind_def)

lemma find_files_result:
  "find_files e folder pre features =
     (Inr (filter (\<lambda>x. takeWhile (\<lambda>c. c \<noteq> CHR ''.'') (last (py_split ''_-_'' (basename x)))
                        \<in> set features) (glob_prefix (fs e) folder pre)),
      [Glob folder pre])"
  by (simp add: find_files_def do_call_def split_files_def select_files_filter)

lemma subject_fields_map:
  "subject_fields xs = Inr ss \<Longrightarrow>
     ss = map (\<lambda>x. py_split ''_-_'' (basename x) ! 1) xs \<and>
     list_all (\<lambda>x. 1 < length (py_split ''_-_'' (basename x))) xs"
  by (induction xs arbitrary: ss)
     (auto simp: subject_of_def py_index_def split: sum.splits if_splits)

lemma subjects_result:
  "subjects xs = Inr subs \<Longrightarrow>
     set subs = (\<lambda>x. py_split ''_-_'' (basename x) ! 1) ` set xs \<and> distinct subs \<and>
     list_all (\<lambda>x. 1 < length (py_split ''_-_'' (basename x))) xs"
  by (auto simp: subjects_def split: sum.splits dest!: subject_fields_map)

lemma datasets_loop_keys:
  "fst (datasets_loop mk tf subs d) = Inr td \<Longrightarrow>
     fst ` set td = fst ` set d \<union> set subs \<and> (distinct (map fst d) \<longrightarrow> distinct (map fst td))"
proof (induction mk tf subs d rule: datasets_loop.induct)
  case (1 mk test_files datasets_test)
  then show ?case by (simp add: ret_def)
next
  case (2 mk test_files sub subs datasets_test)
  from "2.prems" obtain ds where ds: "fst (mk (files_test_sub test_files sub)) = Inr ds"
    and r: "fst (datasets_loop mk test_files subs (AList.update sub ds datasets_test)) = Inr td"
    by (auto dest: run_bind_succeeds)
  from "2.IH" [OF r] show ?case
    by (auto simp: update_keys_set AList.distinct_update)
qed

lemma datasets_loop_calls:
  "(\<And>sub. list_all P (snd (mk (files_test_sub tf sub)))) \<Longrightarrow>
     list_all P (snd (datasets_loop mk tf subs d))"
  by (induction mk tf subs d rule: datasets_loop.induct)
     (auto simp: ret_def intro!: run_bind_all_calls)

lemma datasets_loop_empty: "datasets_loop mk tf [] d = (Inr d, [])"
  by (simp add: ret_def)

lemma returned_result:
  "fst (returned r) = (case fst r of Some e \<Rightarrow> Inl e | None \<Rightarrow> Inr (evaluation (snd r)))"
  "snd (returned r) = em_calls (snd r)"
  by (simp_all add: returned_def split: option.splits)

lemma dump_results_result:
  "fst (dump_results fw rf outcome) = fst outcome"
  "snd (dump_results fw rf outcome) =
     (case fst outcome of
        Inl e \<Rightarrow> snd outcome
      | Inr ev \<Rightarrow> snd outcome @ [JsonDump (py_join rf results_filename) (json_dumps fw ev)])"
  by (simp_all add: dump_results_def run_bind_def do_call_def ret_def split: sum.splits)

lemma json_dumps_empty: "json_dumps fw [] = ''{}''"
  by (simp add: json_dumps_def json_object_def)

lemma files_test_sub_subset: "set (files_test_sub tf sub) \<subseteq> set tf"
  by (auto simp: files_test_sub_def)


lemma main_task1_stages:
  "main_task1 e fw =
     (case data_folder_task1 (config e) of
        Inl err \<Rightarrow> (Inl err, [])
      | Inr df \<Rightarrow>
         (let rf = py_join (experiments_folder e) ''results_dilated_convolutional_model'';
              fl = fit_or_load_task1 e fw df rf
          in case fst fl of
               Inl err \<Rightarrow> (Inl err, Makedirs rf # snd fl)
             | Inr model \<Rightarrow>
                (let dt = datasets_test_task1 e fw df
                 in case fst dt of
                      Inl err \<Rightarrow> (Inl err, Makedirs rf # snd fl @ snd dt)
                    | Inr td \<Rightarrow>
                       (let out = dump_results fw rf (returned (evaluate_model_task1 fw model td))
                        in (fst out, Makedirs rf # snd fl @ snd dt @ snd out)))))"
  by (simp add: main_task1_def run_bind_def lift_def do_call_def Let_def split: sum.splits)

lemma main_task2_stages:
  "main_task2 e fw =
     (case data_folder_task2 (config e) of
        Inl err \<Rightarrow> (Inl err, [])
      | Inr df \<Rightarrow>
         (let rf = py_join (experiments_folder e) ''results_vlaai_mel'';
              fl = fit_or_load_task2 e fw df rf
          in case fst fl of
               Inl err \<Rightarrow> (Inl err, Makedirs rf # snd fl)
             | Inr model \<Rightarrow>
                (let dt = datasets_test_task2 e fw df
                 in case fst dt of
                      Inl err \<Rightarrow> (Inl err, Makedirs rf # snd fl @ snd dt)
                    | Inr td \<Rightarrow>
                       (let out = dump_results fw rf (returned (evaluate_model_task2 fw model td))
                        in (fst out, Makedirs rf # snd fl @ snd dt @ snd out)))))"
  by (simp add: main_task2_def run_bind_def lift_def do_call_def Let_def split: sum.splits)

lemma datasets_test_task1_stages:
  "datasets_test_task1 e fw df =
     (let tf = filter (\<lambda>x. takeWhile (\<lambda>c. c \<noteq> CHR ''.'') (last (py_split ''_-_'' (basename x)))
                               \<in> set features_task1) (glob_prefix (fs e) df ''test_-_'')
      in case subjects tf of
           Inl err \<Rightarrow> (Inl err, [Glob df ''test_-_''])
         | Inr subs \<Rightarrow>
            (let dl = datasets_loop
                        (\<lambda>files. make_dataset fw
                           (MatchMismatchDataGenerator files window_length spacing) True 1)
                        tf subs []
             in (fst dl, Glob df ''test_-_'' # snd dl)))"
  by (simp add: datasets_test_task1_def find_files_result run_bind_def lift_def Let_def
           split: sum.splits)

lemma datasets_test_task2_stages:
  "datasets_test_task2 e fw df =
     (let folder = py_join df ''test'';
          tf = filter (\<lambda>x. takeWhile (\<lambda>c. c \<noteq> CHR ''.'') (last (py_split ''_-_'' (basename x)))
                               \<in> set features_task2) (glob_prefix (fs e) folder ''test_-_'')
      in case subjects tf of
           Inl err \<Rightarrow> (Inl err, [Glob folder ''test_-_''])
         | Inr subs \<Rightarrow>
            (let dl = datasets_loop
                        (\<lambda>files. make_dataset fw (DataGenerator files window_length) False 64)
                        tf subs []
             in (fst dl, Glob folder ''test_-_'' # snd dl)))"
  by (simp add: datasets_test_task2_def find_files_result run_bind_def lift_def Let_def
           split: sum.splits)

lemma find_files_argv:
  "find_files (e\<lparr>argv := a\<rparr>) folder pre features = find_files e folder pre features"
  by (simp add: find_files_def)

lemma fit_or_load_argv:
  "fit_or_load_task1 (e\<lparr>argv := a\<rparr>) fw df rf = fit_or_load_task1 e fw df rf"
  "fit_or_load_task2 (e\<lparr>argv := a\<rparr>) fw df rf = fit_or_load_task2 e fw df rf"
  by (simp_all add: fit_or_load_task1_def fit_or_load_task2_def find_files_argv cong: if_cong)

lemma datasets_test_argv:
  "datasets_test_task1 (e\<lparr>argv := a\<rparr>) fw df = datasets_test_task1 e fw df"
  "datasets_test_task2 (e\<lparr>argv := a\<rparr>) fw df = datasets_test_task2 e fw df"
  by (simp_all add: datasets_test_task1_def datasets_test_task2_def find_files_argv)

lemma main_argv:
  "main_task1 (e\<lparr>argv := a\<rparr>) fw = main_task1 e fw"
  "main_task2 (e\<lparr>argv := a\<rparr>) fw = main_task2 e fw"
  by (simp_all add: main_task1_def main_task2_def fit_or_load_argv datasets_test_argv)

lemma evaluate_model_empty:
  "evaluate_model_task1 fw model [] = (None, \<lparr>test_dict = [], evaluation = [], em_calls = []\<rparr>)"
  "evaluate_model_task2 fw model [] = (None, \<lparr>test_dict = [], evaluation = [], em_calls = []\<rparr>)"
  by (simp_all add: evaluate_model_task1_def evaluate_model_task2_def)

lemma returned_empty:
  "returned (evaluate_model_task1 fw model []) = (Inr [], [])"
  "returned (evaluate_model_task2 fw model []) = (Inr [], [])"
  by (simp_all add: evaluate_model_empty returned_def)

lemma dump_results_empty:
  "dump_results fw rf (Inr [], []) = (Inr [], [JsonDump (py_join rf ''eval.json'') ''{}''])"
  by (simp add: dump_results_def run_bind_def do_call_def ret_def json_dumps_empty
                results_filename_def)

lemma main_task1_no_test_files:
  assumes "data_folder_task1 (config e) = Inr df"
    and "fst (fit_or_load_task1 e fw df rf) = Inr m"
    and "split_files (fs e) df ''test_-_'' features_task1 = Inr []"
    and "rf = py_join (experiments_folder e) ''results_dilated_convolutional_model''"
  shows "main_task1 e fw =
            (Inr [], Makedirs rf # snd (fit_or_load_task1 e fw df rf) @
               [Glob df ''test_-_'', JsonDump (py_join rf ''eval.json'') ''{}''])"
proof -
  from assms(3)
  have tf: "filter (\<lambda>x. takeWhile (\<lambda>c. c \<noteq> CHR ''.'') (last (py_split ''_-_'' (basename x)))
                               \<in> set features_task1) (glob_prefix (fs e) df ''test_-_'') = []"
    by (simp add: split_files_def select_files_filter)
  have dt: "datasets_test_task1 e fw df = (Inr [], [Glob df ''test_-_''])"
    by (simp add: datasets_test_task1_stages tf subjects_def ret_def)
  show ?thesis
    using assms(1,2) unfolding assms(4)
    by (simp add: main_task1_stages Let_def dt returned_empty dump_results_empty)
qed

lemma main_task2_no_test_files:
  assumes "data_folder_task2 (config e) = Inr df"
    and "fst (fit_or_load_task2 e fw df rf) = Inr m"
    and "split_files (fs e) (py_join df ''test'') ''test_-_'' features_task2 = Inr []"
    and "rf = py_join (experiments_folder e) ''results_vlaai_mel''"
  shows "main_task2 e fw =
            (Inr [], Makedirs rf # snd (fit_or_load_task2 e fw df rf) @
               [Glob (py_join df ''test'') ''test_-_'', JsonDump (py_join rf ''eval.json'') ''{}''])"
proof -
  from assms(3)
  have tf: "filter (\<lambda>x. takeWhile (\<lambda>c. c \<noteq> CHR ''.'') (last (py_split ''_-_'' (basename x)))
                               \<in> set features_task2)
              (glob_prefix (fs e) (py_join df ''test'') ''test_-_'') = []"
    by (simp add: split_files_def select_files_filter)
  have dt: "datasets_test_task2 e fw df = (Inr [], [Glob (py_join df ''test'') ''test_-_''])"
    by (simp add: datasets_test_task2_stages tf subjects_def ret_def Let_def)
  show ?thesis
    using assms(1,2) unfolding assms(4)
    by (simp add: main_task2_stages Let_def dt returned_empty dump_results_empty)
qed

lemma main_task1_success:
  assumes "fst (main_task1 e fw) = Inr ev"
    and "rf = py_join (experiments_folder e) ''results_dilated_convolutional_model''"
  shows "\<exists>df model td.
           data_folder_task1 (config e) = Inr df \<and>
           fst (fit_or_load_task1 e fw df rf) = Inr model \<and>
           fst (datasets_test_task1 e fw df) = Inr td \<and>
           fst (evaluate_model_task1 fw model td) = None \<and>
           ev = evaluation (snd (evaluate_model_task1 fw model td)) \<and>
           snd (main_task1 e fw) =
             Makedirs rf # snd (fit_or_load_task1 e fw df rf) @ snd (datasets_test_task1 e fw df) @
             em_calls (snd (evaluate_model_task1 fw model td)) @
             [JsonDump (py_join rf ''eval.json'') (json_dumps fw ev)]"
  using assms(1) unfolding assms(2)
  by (auto simp: main_task1_stages Let_def dump_results_result returned_result
                 results_filename_def
           split: sum.splits option.splits)

lemma main_task2_success:
  assumes "fst (main_task2 e fw) = Inr ev"
    and "rf = py_join (experiments_folder e) ''results_vlaai_mel''"
  shows "\<exists>df model td.
           data_folder_task2 (config e) = Inr df \<and>
           fst (fit_or_load_task2 e fw df rf) = Inr model \<and>
           fst (datasets_test_task2 e fw df) = Inr td \<and>
           fst (evaluate_model_task2 fw model td) = None \<and>
           ev = evaluation (snd (evaluate_model_task2 fw model td)) \<and>
           snd (main_task2 e fw) =
             Makedirs rf # snd (fit_or_load_task2 e fw df rf) @ snd (datasets_test_task2 e fw df) @
             em_calls (snd (evaluate_model_task2 fw model td)) @
             [JsonDump (py_join rf ''eval.json'') (json_dumps fw ev)]"
  using assms(1) unfolding assms(2)
  by (auto simp: main_task2_stages Let_def dump_results_result returned_result
                 results_filename_def
           split: sum.splits option.splits)

lemma datasets_test_task1_success:
  assumes "fst (datasets_test_task1 e fw df) = Inr td"
  shows "\<exists>tf. split_files (fs e) df ''test_-_'' features_task1 = Inr tf \<and>
           list_all (\<lambda>x. 1 < length (py_split ''_-_'' (basename x))) tf \<and>
           fst ` set td = (\<lambda>x. py_split ''_-_'' (basename x) ! 1) ` set tf \<and>
           distinct (map fst td)"
proof -
  let ?tf = "filter (\<lambda>x. takeWhile (\<lambda>c. c \<noteq> CHR ''.'') (last (py_split ''_-_'' (basename x)))
                               \<in> set features_task1) (glob_prefix (fs e) df ''test_-_'')"
  have sf: "split_files (fs e) df ''test_-_'' features_task1 = Inr ?tf"
    by (simp add: split_files_def select_files_filter)
  from assms obtain subs where subs: "subjects ?tf = Inr subs"
    and dl: "fst (datasets_loop
                   (\<lambda>files. make_dataset fw
                      (MatchMismatchDataGenerator files window_length spacing) True 1)
                   ?tf subs []) = Inr td"
    by (auto simp: datasets_test_task1_stages Let_def split: sum.splits)
  from datasets_loop_keys [OF dl] have "fst ` set td = set subs" "distinct (map fst td)"
    by simp_all
  with subjects_result [OF subs] sf show ?thesis by auto
qed

lemma datasets_test_task2_success:
  assumes "fst (datasets_test_task2 e fw df) = Inr td"
  shows "\<exists>tf. split_files (fs e) (py_join df ''test'') ''test_-_'' features_task2 = Inr tf \<and>
           list_all (\<lambda>x. 1 < length (py_split ''_-_'' (basename x))) tf \<and>
           fst ` set td = (\<lambda>x. py_split ''_-_'' (basename x) ! 1) ` set tf \<and>
           distinct (map fst td)"
proof -
  let ?tf = "filter (\<lambda>x. takeWhile (\<lambda>c. c \<noteq> CHR ''.'') (last (py_split ''_-_'' (basename x)))
                               \<in> set features_task2)
               (glob_prefix (fs e) (py_join df ''test'') ''test_-_'')"
  have sf: "split_files (fs e) (py_join df ''test'') ''test_-_'' features_task2 = Inr ?tf"
    by (simp add: split_files_def select_files_filter)
  from assms obtain subs where subs: "subjects ?tf = Inr subs"
    and dl: "fst (datasets_loop
                   (\<lambda>files. make_dataset fw (DataGenerator files window_length) False 64)
                   ?tf subs []) = Inr td"
    by (auto simp: datasets_test_task2_stages Let_def split: sum.splits)
  from datasets_loop_keys [OF dl] have "fst ` set td = set subs" "distinct (map fst td)"
    by simp_all
  with subjects_result [OF subs] sf show ?thesis by auto
qed

lemma evaluate_model_keys:
  "fst (evaluate_model_task1 fw model td) = None \<Longrightarrow>
     fst ` set (evaluation (snd (evaluate_model_task1 fw model td))) = fst ` set td \<and>
     distinct (map fst (evaluation (snd (evaluate_model_task1 fw model td))))"
  "fst (evaluate_model_task2 fw model td) = None \<Longrightarrow>
     fst ` set (evaluation (snd (evaluate_model_task2 fw model td))) = fst ` set td \<and>
     distinct (map fst (evaluation (snd (evaluate_model_task2 fw model td))))"
  using evaluate_loop_keys [of "body_task1 fw model" td "\<lparr>test_dict = td, evaluation = [], em_calls = []\<rparr>"]
        evaluate_loop_distinct [of "\<lparr>test_dict = td, evaluation = [], em_calls = []\<rparr>" "body_task1 fw model" td]
        evaluate_loop_keys [of "body_task2 fw model" td "\<lparr>test_dict = td, evaluation = [], em_calls = []\<rparr>"]
        evaluate_loop_distinct [of "\<lparr>test_dict = td, evaluation = [], em_calls = []\<rparr>" "body_task2 fw model" td]
  by (simp_all add: evaluate_model_task1_def evaluate_model_task2_def)

lemma no_json_dump_fit_or_load:
  "list_all (\<lambda>c. \<not> is_json_dump c) (snd (fit_or_load_task1 e fw df rf))"
  "list_all (\<lambda>c. \<not> is_json_dump c) (snd (fit_or_load_task2 e fw df rf))"
  by (auto simp: fit_or_load_task1_def fit_or_load_task2_def Let_def find_files_def
                 make_dataset_def do_call_def
           intro!: run_bind_all_calls)

lemma no_json_dump_datasets_test:
  "list_all (\<lambda>c. \<not> is_json_dump c) (snd (datasets_test_task1 e fw df))"
  "list_all (\<lambda>c. \<not> is_json_dump c) (snd (datasets_test_task2 e fw df))"
  by (auto simp: datasets_test_task1_stages datasets_test_task2_stages Let_def make_dataset_def
                 do_call_def
           split: sum.splits intro!: datasets_loop_calls)

lemma body_calls_no_json_dump:
  "list_all (\<lambda>c. \<not> is_json_dump c) (snd (body_task1 fw model ds))"
  "list_all (\<lambda>c. \<not> is_json_dump c) (snd (body_task2 fw model ds))"
  by (simp_all add: body_task1_calls body_task2_calls split: sum.splits)

lemma evaluate_loop_all_calls:
  "list_all P (em_calls s) \<Longrightarrow> (\<And>ds. list_all P (snd (body ds))) \<Longrightarrow>
     list_all P (em_calls (snd (evaluate_loop body items s)))"
  by (induction body items s rule: evaluate_loop.induct) (auto split: sum.splits)

lemma no_json_dump_evaluate_model:
  "list_all (\<lambda>c. \<not> is_json_dump c) (em_calls (snd (evaluate_model_task1 fw model td)))"
  "list_all (\<lambda>c. \<not> is_json_dump c) (em_calls (snd (evaluate_model_task2 fw model td)))"
  by (simp_all add: evaluate_model_task1_def evaluate_model_task2_def evaluate_loop_all_calls
                    body_calls_no_json_dump)

lemma main_raises_no_json_dump:
  "fst (main_task1 e fw) = Inl err \<Longrightarrow> list_all (\<lambda>c. \<not> is_json_dump c) (snd (main_task1 e fw))"
  "fst (main_task2 e fw) = Inl err \<Longrightarrow> list_all (\<lambda>c. \<not> is_json_dump c) (snd (main_task2 e fw))"
  by (auto simp: main_task1_stages main_task2_stages Let_def dump_results_result returned_result
                 no_json_dump_fit_or_load no_json_dump_datasets_test no_json_dump_evaluate_model
           split: sum.splits option.splits)

lemma evaluate_loop_some_raises:
  "(sub, ds) \<in> set items \<Longrightarrow> fst (body ds) = Inl err \<Longrightarrow>
     \<exists>e'. fst (evaluate_loop body items s) = Some e'"
  using evaluate_loop_succeeds_iff [of body items s] by (cases "fst (evaluate_loop body items s)") force+

lemma main_evaluation_raises:
  "data_folder_task1 (config e) = Inr df \<Longrightarrow>
   fst (fit_or_load_task1 e fw df
          (py_join (experiments_folder e) ''results_dilated_convolutional_model'')) = Inr model \<Longrightarrow>
   fst (datasets_test_task1 e fw df) = Inr td \<Longrightarrow>
   fst (evaluate_model_task1 fw model td) = Some err \<Longrightarrow>
     fst (main_task1 e fw) = Inl err"
  "data_folder_task2 (config e) = Inr df \<Longrightarrow>
   fst (fit_or_load_task2 e fw df (py_join (experiments_folder e) ''results_vlaai_mel''))
     = Inr model \<Longrightarrow>
   fst (datasets_test_task2 e fw df) = Inr td \<Longrightarrow>
   fst (evaluate_model_task2 fw model td) = Some err \<Longrightarrow>
     fst (main_task2 e fw) = Inl err"
  by (simp_all add: main_task1_stages main_task2_stages Let_def dump_results_result
                    returned_result)

lemma evaluate_model_raises:
  assumes "(sub, ds) \<in> set td" and "fst (body ds) = Inl err"
    and "r = evaluate_loop body td \<lparr>test_dict = td, evaluation = [], em_calls = []\<rparr>"
  shows "\<exists>e' before sub' ds' after.
           td = before @ (sub', ds') # after \<and>
           list_all (\<lambda>item. \<exists>d. fst (body (snd item)) = Inr d) before \<and>
           fst (body ds') = Inl e' \<and>
           fst r = Some e' \<and>
           em_calls (snd r) = concat (map (\<lambda>item. snd (body (snd item))) (before @ [(sub', ds')]))"
proof -
  from evaluate_loop_some_raises
         [of sub ds td body err "\<lparr>test_dict = td, evaluation = [], em_calls = []\<rparr>",
          OF assms(1,2)]
  obtain e' where e': "fst r = Some e'"
    unfolding assms(3) by blast
  from evaluate_loop_raises [OF e' [unfolded assms(3)]] e' show ?thesis
    unfolding assms(3) by (simp add: list_all_iff)
qed

lemma errors_propagate_task1:
  assumes "data_folder_task1 (config e) = Inr df"
    and "fst (fit_or_load_task1 e fw df
               (py_join (experiments_folder e) ''results_dilated_convolutional_model''))
           = Inr model"
    and "fst (datasets_test_task1 e fw df) = Inr td"
    and "(sub, ds) \<in> set td"
    and "fst (body_task1 fw model ds) = Inl err"
  shows "\<exists>e' before sub' ds' after.
          td = before @ (sub', ds') # after \<and>
          list_all (\<lambda>item. \<exists>d. fst (body_task1 fw model (snd item)) = Inr d) before \<and>
          fst (body_task1 fw model ds') = Inl e' \<and>
          fst (evaluate_model_task1 fw model td) = Some e' \<and>
          em_calls (snd (evaluate_model_task1 fw model td)) =
            concat (map (\<lambda>item. snd (body_task1 fw model (snd item))) (before @ [(sub', ds')])) \<and>
          fst (main_task1 e fw) = Inl e' \<and>
          list_all (\<lambda>c. \<not> is_json_dump c) (snd (main_task1 e fw))"
proof -
  from evaluate_model_raises [OF assms(4,5) evaluate_model_task1_def]
  obtain e' before sub' ds' after where
    r: "td = before @ (sub', ds') # after"
       "list_all (\<lambda>item. \<exists>d. fst (body_task1 fw model (snd item)) = Inr d) before"
       "fst (body_task1 fw model ds') = Inl e'"
       "fst (evaluate_model_task1 fw model td) = Some e'"
       "em_calls (snd (evaluate_model_task1 fw model td)) =
            concat (map (\<lambda>item. snd (body_task1 fw model (snd item))) (before @ [(sub', ds')]))"
    by blast
  have raised: "fst (main_task1 e fw) = Inl e'"
    by (rule main_evaluation_raises(1) [OF assms(1,2,3) r(4)])
  from main_raises_no_json_dump(1) [OF raised] raised r show ?thesis by blast
qed

lemma errors_propagate_task2:
  assumes "data_folder_task2 (config e) = Inr df"
    and "fst (fit_or_load_task2 e fw df (py_join (experiments_folder e) ''results_vlaai_mel''))
           = Inr model"
    and "fst (datasets_test_task2 e fw df) = Inr td"
    and "(sub, ds) \<in> set td"
    and "fst (body_task2 fw model ds) = Inl err"
  shows "\<exists>e' before sub' ds' after.
          td = before @ (sub', ds') # after \<and>
          list_all (\<lambda>item. \<exists>d. fst (body_task2 fw model (snd item)) = Inr d) before \<and>
          fst (body_task2 fw model ds') = Inl e' \<and>
          fst (evaluate_model_task2 fw model td) = Some e' \<and>
          em_calls (snd (evaluate_model_task2 fw model td)) =
            concat (map (\<lambda>item. snd (body_task2 fw model (snd item))) (before @ [(sub', ds')])) \<and>
          fst (main_task2 e fw) = Inl e' \<and>
          list_all (\<lambda>c. \<not> is_json_dump c) (snd (main_task2 e fw))"
proof -
  from evaluate_model_raises [OF assms(4,5) evaluate_model_task2_def]
  obtain e' before sub' ds' after where
    r: "td = before @ (sub', ds') # after"
       "list_all (\<lambda>item. \<exists>d. fst (body_task2 fw model (snd item)) = Inr d) before"
       "fst (body_task2 fw model ds') = Inl e'"
       "fst (evaluate_model_task2 fw model td) = Some e'"
       "em_calls (snd (evaluate_model_task2 fw model td)) =
            concat (map (\<lambda>item. snd (body_task2 fw model (snd item))) (before @ [(sub', ds')]))"
    by blast
  have raised: "fst (main_task2 e fw) = Inl e'"
    by (rule main_evaluation_raises(2) [OF assms(1,2,3) r(4)])
  from main_raises_no_json_dump(2) [OF raised] raised r show ?thesis by blast
qed

lemma py_join_differs:
  "\<not> prefix ''/'' b \<Longrightarrow> \<not> prefix ''/'' c \<Longrightarrow> b \<noteq> c \<Longrightarrow> py_join a b \<noteq> py_join a c"
  by (auto simp: py_join_def)

lemma evaluation_call_not_training:
  assumes "evaluation_call cands (py_join rf ''eval.json'') c"
  shows "\<not> training_call c \<and> py_join rf ''model.h5'' \<notin> set (written_paths c) \<and>
         py_join rf ''training_log.csv'' \<notin> set (written_paths c)"
proof -
  have "py_join rf ''eval.json'' \<noteq> py_join rf ''model.h5''"
    and "py_join rf ''eval.json'' \<noteq> py_join rf ''training_log.csv''"
    by (rule py_join_differs; simp)+
  with assms show ?thesis by (cases c) auto
qed

lemma fit_or_load_only_evaluate:
  "only_evaluate e \<Longrightarrow>
     fit_or_load_task1 e fw df rf =
       (load_model fw (py_join rf ''model.h5''), [LoadModel (py_join rf ''model.h5'')])"
  "only_evaluate e \<Longrightarrow>
     fit_or_load_task2 e fw df rf =
       (load_weights fw (vlaai_compiled fw) (py_join rf ''model.h5''),
        [LoadWeights (py_join rf ''model.h5'')])"
  by (simp_all add: fit_or_load_task1_def fit_or_load_task2_def do_call_def Let_def)

lemma datasets_test_evaluation_calls:
  "list_all (evaluation_call (glob_prefix (fs e) df ''test_-_'') rp)
     (snd (datasets_test_task1 e fw df))"
  "list_all (evaluation_call (glob_prefix (fs e) (py_join df ''test'') ''test_-_'') rp)
     (snd (datasets_test_task2 e fw df))"
  by (auto simp: datasets_test_task1_stages datasets_test_task2_stages Let_def make_dataset_def
                 do_call_def files_test_sub_def
           split: sum.splits intro!: datasets_loop_calls)

lemma evaluate_model_evaluation_calls:
  "list_all (evaluation_call cands rp) (em_calls (snd (evaluate_model_task1 fw model td)))"
  "list_all (evaluation_call cands rp) (em_calls (snd (evaluate_model_task2 fw model td)))"
  by (simp_all add: evaluate_model_task1_def evaluate_model_task2_def evaluate_loop_all_calls
                    body_task1_calls body_task2_calls split: sum.splits)

lemma dump_results_evaluation_calls:
  "list_all (evaluation_call cands (py_join rf ''eval.json'')) (snd outcome) \<Longrightarrow>
     list_all (evaluation_call cands (py_join rf ''eval.json'')) (snd (dump_results fw rf outcome))"
  by (simp add: dump_results_result results_filename_def split: sum.splits)

lemma main_task1_only_evaluate:
  assumes "only_evaluate e" and "data_folder_task1 (config e) = Inr df"
    and "rf = py_join (experiments_folder e) ''results_dilated_convolutional_model''"
  shows "\<exists>rest. snd (main_task1 e fw) = [Makedirs rf, LoadModel (py_join rf ''model.h5'')] @ rest \<and>
           list_all (evaluation_call (glob_prefix (fs e) df ''test_-_'') (py_join rf ''eval.json''))
             rest"
  using assms(1,2) unfolding assms(3)
  by (auto simp: main_task1_stages Let_def fit_or_load_only_evaluate
                 datasets_test_evaluation_calls evaluate_model_evaluation_calls
                 dump_results_evaluation_calls returned_result
           split: sum.splits)

lemma main_task2_only_evaluate:
  assumes "only_evaluate e" and "data_folder_task2 (config e) = Inr df"
    and "rf = py_join (experiments_folder e) ''results_vlaai_mel''"
  shows "\<exists>rest. snd (main_task2 e fw) = [Makedirs rf, LoadWeights (py_join rf ''model.h5'')] @ rest \<and>
           list_all (evaluation_call (glob_prefix (fs e) (py_join df ''test'') ''test_-_'')
                       (py_join rf ''eval.json''))
             rest"
  using assms(1,2) unfolding assms(3)
  by (auto simp: main_task2_stages Let_def fit_or_load_only_evaluate
                 datasets_test_evaluation_calls evaluate_model_evaluation_calls
                 dump_results_evaluation_calls returned_result
           split: sum.splits)

lemma only_evaluate_trace_task1:
  assumes "only_evaluate e"
    and "rf = py_join (experiments_folder e) ''results_dilated_convolutional_model''"
  shows "list_all (\<lambda>c. \<not> training_call c \<and> py_join rf ''model.h5'' \<notin> set (written_paths c) \<and>
                      py_join rf ''training_log.csv'' \<notin> set (written_paths c))
           (snd (main_task1 e fw))"
proof (cases "data_folder_task1 (config e)")
  case (Inl err)
  then show ?thesis by (simp add: main_task1_stages)
next
  case (Inr df)
  from main_task1_only_evaluate [OF assms(1) Inr assms(2)] obtain rest where
    tr: "snd (main_task1 e fw) = [Makedirs rf, LoadModel (py_join rf ''model.h5'')] @ rest"
    and ev: "list_all (evaluation_call (glob_prefix (fs e) df ''test_-_'') (py_join rf ''eval.json''))
               rest"
    by blast
  from ev have "list_all (\<lambda>c. \<not> training_call c \<and> py_join rf ''model.h5'' \<notin> set (written_paths c) \<and>
                      py_join rf ''training_log.csv'' \<notin> set (written_paths c)) rest"
    by (auto simp: list_all_iff dest: evaluation_call_not_training)
  then show ?thesis by (simp add: tr)
qed

lemma only_evaluate_trace_task2:
  assumes "only_evaluate e"
    and "rf = py_join (experiments_folder e) ''results_vlaai_mel''"
  shows "list_all (\<lambda>c. \<not> training_call c \<and> py_join rf ''model.h5'' \<notin> set (written_paths c) \<and>
                      py_join rf ''training_log.csv'' \<notin> set (written_paths c))
           (snd (main_task2 e fw))"
proof (cases "data_folder_task2 (config e)")
  case (Inl err)
  then show ?thesis by (simp add: main_task2_stages)
next
  case (Inr df)
  from main_task2_only_evaluate [OF assms(1) Inr assms(2)] obtain rest where
    tr: "snd (main_task2 e fw) = [Makedirs rf, LoadWeights (py_join rf ''model.h5'')] @ rest"
    and ev: "list_all (evaluation_call (glob_prefix (fs e) (py_join df ''test'') ''test_-_'')
                         (py_join rf ''eval.json''))
               rest"
    by blast
  from ev have "list_all (\<lambda>c. \<not> training_call c \<and> py_join rf ''model.h5'' \<notin> set (written_paths c) \<and>
                      py_join rf ''training_log.csv'' \<notin> set (written_paths c)) rest"
    by (auto simp: list_all_iff dest: evaluation_call_not_training)
  then show ?thesis by (simp add: tr)
qed

lemma evaluate_model_lookup:
  "fst (evaluate_model_task1 fw model td) = None \<Longrightarrow> distinct (map fst td) \<Longrightarrow>
   (sub, ds) \<in> set td \<Longrightarrow>
     \<exists>d. fst (body_task1 fw model ds) = Inr d \<and>
         map_of (evaluation (snd (evaluate_model_task1 fw model td))) sub = Some d"
  "fst (evaluate_model_task2 fw model td) = None \<Longrightarrow> distinct (map fst td) \<Longrightarrow>
   (sub, ds) \<in> set td \<Longrightarrow>
     \<exists>d. fst (body_task2 fw model ds) = Inr d \<and>
         map_of (evaluation (snd (evaluate_model_task2 fw model td))) sub = Some d"
  unfolding evaluate_model_task1_def evaluate_model_task2_def
  by (rule evaluate_loop_lookup; assumption)+

lemma py_dict_zip_scalars:
  assumes "length names \<le> length results"
    and "d = py_dict (zip names (map Scalar results))"
  shows "fst ` set d = set names"
    and "name \<in> set names \<Longrightarrow> \<exists>v. map_of d name = Some (Scalar v)"
proof -
  have keys: "fst ` set (zip names (map Scalar results)) = set names"
  proof -
    have "map fst (zip names (map Scalar results)) = names"
      using assms(1) by (simp add: map_fst_zip_take)
    then show ?thesis by (metis set_map)
  qed
  then show k: "fst ` set d = set names"
    by (simp add: assms(2) py_dict_keys)
  assume "name \<in> set names"
  with keys have "name \<in> fst ` set (rev (zip names (map Scalar results)))" by simp
  then obtain x where x: "map_of (rev (zip names (map Scalar results))) name = Some x"
    by (cases "map_of (rev (zip names (map Scalar results))) name")
       (simp_all add: map_of_eq_None_iff)
  then have "(name, x) \<in> set (zip names (map Scalar results))"
    by (auto dest: map_of_SomeD)
  then have "x \<in> set (map Scalar results)"
    by (rule set_zip_rightD)
  then obtain v where "x = Scalar v" by auto
  with x show "\<exists>v. map_of d name = Some (Scalar v)"
    by (simp add: assms(2) py_dict_map_of)
qed

lemma glob_prefix_iff:
  assumes "\<forall>d. list_all (\<lambda>n. CHR ''/'' \<notin> set n) (listdir fsys d)"
  shows "p \<in> set (glob_prefix fsys folder pre) \<longleftrightarrow>
           p \<in> set (glob_candidates fsys folder pre) \<and> prefix pre (basename p)"
proof -
  have n: "basename (py_join d n) = n" if "n \<in> set (listdir fsys d)" for n d
  proof -
    from assms that have "CHR ''/'' \<notin> set n" by (auto simp: list_all_iff)
    then show ?thesis by (rule basename_py_join)
  qed
  have "p \<in> set (glob_prefix fsys folder pre) \<longleftrightarrow>
          (\<exists>d \<in> set (searched_dirs fsys folder pre).
             \<exists>n \<in> set (listdir fsys d). prefix pre n \<and> p = py_join d n)"
    by (auto simp: glob_prefix_def)
  also have "\<dots> \<longleftrightarrow>
          (\<exists>d \<in> set (searched_dirs fsys folder pre).
             \<exists>n \<in> set (listdir fsys d). p = py_join d n) \<and> prefix pre (basename p)"
  proof (intro iffI conjI)
    assume "\<exists>d \<in> set (searched_dirs fsys folder pre).
             \<exists>n \<in> set (listdir fsys d). prefix pre n \<and> p = py_join d n"
    then obtain d m where dm: "d \<in> set (searched_dirs fsys folder pre)"
      "m \<in> set (listdir fsys d)" "prefix pre m" "p = py_join d m"
      by blast
    from dm(1,2,4) show "\<exists>d \<in> set (searched_dirs fsys folder pre).
             \<exists>n \<in> set (listdir fsys d). p = py_join d n"
      by blast
    from dm(2,3,4) show "prefix pre (basename p)" by (simp add: n)
  next
    assume "(\<exists>d \<in> set (searched_dirs fsys folder pre).
             \<exists>n \<in> set (listdir fsys d). p = py_join d n) \<and> prefix pre (basename p)"
    then obtain d m where dm: "d \<in> set (searched_dirs fsys folder pre)"
      "m \<in> set (listdir fsys d)" "p = py_join d m" and pr: "prefix pre (basename p)"
      by blast
    from dm(2,3) pr have "prefix pre m" by (simp add: n)
    with dm show "\<exists>d \<in> set (searched_dirs fsys folder pre).
             \<exists>n \<in> set (listdir fsys d). prefix pre n \<and> p = py_join d n"
      by blast
  qed
  also have "\<dots> \<longleftrightarrow> p \<in> set (glob_candidates fsys folder pre) \<and> prefix pre (basename p)"
    by (auto simp: glob_candidates_def)
  finally show ?thesis .
qed

lemma find_files_convention:
  assumes "\<forall>d. list_all (\<lambda>n. CHR ''/'' \<notin> set n) (listdir (fs e) d)"
  shows "\<exists>files. find_files e folder pre features = (Inr files, [Glob folder pre]) \<and>
           (\<forall>p. p \<in> set files \<longleftrightarrow> follows_convention (fs e) folder pre features p)"
  using glob_prefix_iff [OF assms, of _ folder pre]
  by (auto simp: find_files_result follows_convention_def)

lemma training_trace_task1:
  assumes "\<not> only_evaluate e"
    and "split_files (fs e) df ''train_-_'' features_task1 = Inr train_files"
    and "split_files (fs e) df ''val_-_'' features_task1 = Inr val_files"
  shows "take 2 (snd (fit_or_load_task1 e fw df rf)) =
           [Glob df ''train_-_'',
            CreateDataset (MatchMismatchDataGenerator train_files window_length spacing)
              batch_size_task1]"
    and "create_tf_dataset fw (MatchMismatchDataGenerator train_files window_length spacing)
           window_length True hop_length batch_size_task1 = Inr dataset_train \<Longrightarrow>
         take 2 (drop 2 (snd (fit_or_load_task1 e fw df rf))) =
           [Glob df ''val_-_'',
            CreateDataset (MatchMismatchDataGenerator val_files window_length spacing)
              batch_size_task1]"
  by (simp_all add: fit_or_load_task1_def Let_def find_files_def assms make_dataset_def
                    run_bind_def do_call_def split: sum.splits)

lemma training_trace_task2:
  assumes "\<not> only_evaluate e"
    and "split_files (fs e) (py_join df ''train'') ''train_-_'' features_task2 = Inr train_files"
    and "split_files (fs e) (py_join df ''val'') ''val_-_'' features_task2 = Inr val_files"
  shows "take 2 (snd (fit_or_load_task2 e fw df rf)) =
           [Glob (py_join df ''train'') ''train_-_'',
            CreateDataset (DataGenerator train_files window_length) batch_size_task2]"
    and "create_tf_dataset fw (DataGenerator train_files window_length)
           window_length False hop_length batch_size_task2 = Inr dataset_train \<Longrightarrow>
         take 2 (drop 2 (snd (fit_or_load_task2 e fw df rf))) =
           [Glob (py_join df ''val'') ''val_-_'',
            CreateDataset (DataGenerator val_files window_length) batch_size_task2]"
  by (simp_all add: fit_or_load_task2_def Let_def find_files_def assms make_dataset_def
                    run_bind_def do_call_def split: sum.splits)

lemma datasets_test_from_files:
  "split_files (fs e) df ''test_-_'' features_task1 = Inr test_files \<Longrightarrow>
     datasets_test_task1 e fw df =
       run_bind (do_call (Glob df ''test_-_'') (Inr test_files)) (\<lambda>test_files.
       run_bind (lift (subjects test_files)) (\<lambda>subs.
       datasets_loop
         (\<lambda>files. make_dataset fw
            (MatchMismatchDataGenerator files window_length spacing) True 1)
         test_files subs []))"
  "split_files (fs e) (py_join df ''test'') ''test_-_'' features_task2 = Inr test_files \<Longrightarrow>
     datasets_test_task2 e fw df =
       run_bind (do_call (Glob (py_join df ''test'') ''test_-_'') (Inr test_files)) (\<lambda>test_files.
       run_bind (lift (subjects test_files)) (\<lambda>subs.
       datasets_loop (\<lambda>files. make_dataset fw (DataGenerator files window_length) False 64)
         test_files subs []))"
  by (simp_all add: datasets_test_task1_def datasets_test_task2_def find_files_def)

lemma split_files_convention:
  assumes "\<forall>d. list_all (\<lambda>n. CHR ''/'' \<notin> set n) (listdir fsys d)"
  shows "\<exists>files. split_files fsys folder pre features = Inr files \<and>
           (\<forall>p. p \<in> set files \<longleftrightarrow> follows_convention fsys folder pre features p)"
  using glob_prefix_iff [OF assms, of _ folder pre]
  by (auto simp: split_files_def select_files_filter follows_convention_def)

lemma file_lists_task1:
  assumes "\<forall>d. list_all (\<lambda>n. CHR ''/'' \<notin> set n) (listdir (fs e) d)"
  shows "(\<not> only_evaluate e \<longrightarrow>
      (\<exists>train_files.
         (\<forall>p. p \<in> set train_files \<longleftrightarrow>
                follows_convention (fs e) df ''train_-_'' features_task1 p) \<and>
         take 2 (snd (fit_or_load_task1 e fw df rf)) =
           [Glob df ''train_-_'',
            CreateDataset (MatchMismatchDataGenerator train_files window_length spacing)
              batch_size_task1] \<and>
         (\<forall>dataset_train.
            create_tf_dataset fw (MatchMismatchDataGenerator train_files window_length spacing)
              window_length True hop_length batch_size_task1 = Inr dataset_train \<longrightarrow>
            (\<exists>val_files.
               (\<forall>p. p \<in> set val_files \<longleftrightarrow>
                      follows_convention (fs e) df ''val_-_'' features_task1 p) \<and>
               take 2 (drop 2 (snd (fit_or_load_task1 e fw df rf))) =
                 [Glob df ''val_-_'',
                  CreateDataset (MatchMismatchDataGenerator val_files window_length spacing)
                    batch_size_task1])))) \<and>
   (\<exists>test_files.
      (\<forall>p. p \<in> set test_files \<longleftrightarrow>
             follows_convention (fs e) df ''test_-_'' features_task1 p) \<and>
      datasets_test_task1 e fw df =
        run_bind (do_call (Glob df ''test_-_'') (Inr test_files)) (\<lambda>test_files.
        run_bind (lift (subjects test_files)) (\<lambda>subs.
        datasets_loop
          (\<lambda>files. make_dataset fw
             (MatchMismatchDataGenerator files window_length spacing) True 1)
          test_files subs [])))"
proof -
  from split_files_convention [OF assms] obtain train_files where
    tr: "split_files (fs e) df ''train_-_'' features_task1 = Inr train_files"
        "\<forall>p. p \<in> set train_files \<longleftrightarrow>
               follows_convention (fs e) df ''train_-_'' features_task1 p"
    by blast
  from split_files_convention [OF assms] obtain val_files where
    va: "split_files (fs e) df ''val_-_'' features_task1 = Inr val_files"
        "\<forall>p. p \<in> set val_files \<longleftrightarrow>
               follows_convention (fs e) df ''val_-_'' features_task1 p"
    by blast
  from split_files_convention [OF assms] obtain test_files where
    te: "split_files (fs e) df ''test_-_'' features_task1 = Inr test_files"
        "\<forall>p. p \<in> set test_files \<longleftrightarrow>
               follows_convention (fs e) df ''test_-_'' features_task1 p"
    by blast
  show ?thesis
  proof (intro conjI impI)
    assume ne: "\<not> only_evaluate e"
    note t = training_trace_task1 [OF ne tr(1) va(1), where fw = fw and rf = rf]
    have inner: "\<forall>dataset_train.
            create_tf_dataset fw (MatchMismatchDataGenerator train_files window_length spacing)
              window_length True hop_length batch_size_task1 = Inr dataset_train \<longrightarrow>
            (\<exists>val_files.
               (\<forall>p. p \<in> set val_files \<longleftrightarrow>
                      follows_convention (fs e) df ''val_-_'' features_task1 p) \<and>
               take 2 (drop 2 (snd (fit_or_load_task1 e fw df rf))) =
                 [Glob df ''val_-_'',
                  CreateDataset (MatchMismatchDataGenerator val_files window_length spacing) batch_size_task1])"
    proof (intro allI impI)
      fix dataset_train
      assume c: "create_tf_dataset fw (MatchMismatchDataGenerator train_files window_length spacing)
              window_length True hop_length batch_size_task1 = Inr dataset_train"
      from va(2) t(2) [OF c] show "\<exists>val_files.
               (\<forall>p. p \<in> set val_files \<longleftrightarrow>
                      follows_convention (fs e) df ''val_-_'' features_task1 p) \<and>
               take 2 (drop 2 (snd (fit_or_load_task1 e fw df rf))) =
                 [Glob df ''val_-_'',
                  CreateDataset (MatchMismatchDataGenerator val_files window_length spacing) batch_size_task1]"
        by (intro exI [of _ val_files] conjI)
    qed
    from tr(2) t(1) inner show "\<exists>train_files.
         (\<forall>p. p \<in> set train_files \<longleftrightarrow>
                follows_convention (fs e) df ''train_-_'' features_task1 p) \<and>
         take 2 (snd (fit_or_load_task1 e fw df rf)) =
           [Glob df ''train_-_'',
            CreateDataset (MatchMismatchDataGenerator train_files window_length spacing) batch_size_task1] \<and>
         (\<forall>dataset_train.
            create_tf_dataset fw (MatchMismatchDataGenerator train_files window_length spacing)
              window_length True hop_length batch_size_task1 = Inr dataset_train \<longrightarrow>
            (\<exists>val_files.
               (\<forall>p. p \<in> set val_files \<longleftrightarrow>
                      follows_convention (fs e) df ''val_-_'' features_task1 p) \<and>
               take 2 (drop 2 (snd (fit_or_load_task1 e fw df rf))) =
                 [Glob df ''val_-_'',
                  CreateDataset (MatchMismatchDataGenerator val_files window_length spacing) batch_size_task1]))"
      by (intro exI [of _ train_files] conjI)
  next
    from te(2) datasets_test_from_files(1) [OF te(1), where fw = fw]
    show "\<exists>test_files.
      (\<forall>p. p \<in> set test_files \<longleftrightarrow>
             follows_convention (fs e) df ''test_-_'' features_task1 p) \<and>
      datasets_test_task1 e fw df =
        run_bind (do_call (Glob df ''test_-_'') (Inr test_files)) (\<lambda>test_files.
        run_bind (lift (subjects test_files)) (\<lambda>subs.
        datasets_loop
          (\<lambda>files. make_dataset fw
             (MatchMismatchDataGenerator files window_length spacing) True 1)
          test_files subs []))"
      by (intro exI [of _ test_files] conjI)
  qed
qed

lemma file_lists_task2:
  assumes "\<forall>d. list_all (\<lambda>n. CHR ''/'' \<notin> set n) (listdir (fs e) d)"
  shows "(\<not> only_evaluate e \<longrightarrow>
      (\<exists>train_files.
         (\<forall>p. p \<in> set train_files \<longleftrightarrow>
                follows_convention (fs e) (py_join df ''train'') ''train_-_'' features_task2 p) \<and>
         take 2 (snd (fit_or_load_task2 e fw df rf)) =
           [Glob (py_join df ''train'') ''train_-_'',
            CreateDataset (DataGenerator train_files window_length) batch_size_task2] \<and>
         (\<forall>dataset_train.
            create_tf_dataset fw (DataGenerator train_files window_length)
              window_length False hop_length batch_size_task2 = Inr dataset_train \<longrightarrow>
            (\<exists>val_files.
               (\<forall>p. p \<in> set val_files \<longleftrightarrow>
                      follows_convention (fs e) (py_join df ''val'') ''val_-_'' features_task2 p) \<and>
               take 2 (drop 2 (snd (fit_or_load_task2 e fw df rf))) =
                 [Glob (py_join df ''val'') ''val_-_'',
                  CreateDataset (DataGenerator val_files window_length) batch_size_task2])))) \<and>
   (\<exists>test_files.
      (\<forall>p. p \<in> set test_files \<longleftrightarrow>
             follows_convention (fs e) (py_join df ''test'') ''test_-_'' features_task2 p) \<and>
      datasets_test_task2 e fw df =
        run_bind (do_call (Glob (py_join df ''test'') ''test_-_'') (Inr test_files)) (\<lambda>test_files.
        run_bind (lift (subjects test_files)) (\<lambda>subs.
        datasets_loop (\<lambda>files. make_dataset fw (DataGenerator files window_length) False 64)
          test_files subs [])))"
proof -
  from split_files_convention [OF assms] obtain train_files where
    tr: "split_files (fs e) (py_join df ''train'') ''train_-_'' features_task2 = Inr train_files"
        "\<forall>p. p \<in> set train_files \<longleftrightarrow>
               follows_convention (fs e) (py_join df ''train'') ''train_-_'' features_task2 p"
    by blast
  from split_files_convention [OF assms] obtain val_files where
    va: "split_files (fs e) (py_join df ''val'') ''val_-_'' features_task2 = Inr val_files"
        "\<forall>p. p \<in> set val_files \<longleftrightarrow>
               follows_convention (fs e) (py_join df ''val'') ''val_-_'' features_task2 p"
    by blast
  from split_files_convention [OF assms] obtain test_files where
    te: "split_files (fs e) (py_join df ''test'') ''test_-_'' features_task2 = Inr test_files"
        "\<forall>p. p \<in> set test_files \<longleftrightarrow>
               follows_convention (fs e) (py_join df ''test'') ''test_-_'' features_task2 p"
    by blast
  show ?thesis
  proof (intro conjI impI)
    assume ne: "\<not> only_evaluate e"
    note t = training_trace_task2 [OF ne tr(1) va(1), where fw = fw and rf = rf]
    have inner: "\<forall>dataset_train.
            create_tf_dataset fw (DataGenerator train_files window_length)
              window_length False hop_length batch_size_task2 = Inr dataset_train \<longrightarrow>
            (\<exists>val_files.
               (\<forall>p. p \<in> set val_files \<longleftrightarrow>
                      follows_convention (fs e) (py_join df ''val'') ''val_-_'' features_task2 p) \<and>
               take 2 (drop 2 (snd (fit_or_load_task2 e fw df rf))) =
                 [Glob (py_join df ''val'') ''val_-_'',
                  CreateDataset (DataGenerator val_files window_length) batch_size_task2])"
    proof (intro allI impI)
      fix dataset_train
      assume c: "create_tf_dataset fw (DataGenerator train_files window_length)
              window_length False hop_length batch_size_task2 = Inr dataset_train"
      from va(2) t(2) [OF c] show "\<exists>val_files.
               (\<forall>p. p \<in> set val_files \<longleftrightarrow>
                      follows_convention (fs e) (py_join df ''val'') ''val_-_'' features_task2 p) \<and>
               take 2 (drop 2 (snd (fit_or_load_task2 e fw df rf))) =
                 [Glob (py_join df ''val'') ''val_-_'',
                  CreateDataset (DataGenerator val_files window_length) batch_size_task2]"
        by (intro exI [of _ val_files] conjI)
    qed
    from tr(2) t(1) inner show "\<exists>train_files.
         (\<forall>p. p \<in> set train_files \<longleftrightarrow>
                follows_convention (fs e) (py_join df ''train'') ''train_-_'' features_task2 p) \<and>
         take 2 (snd (fit_or_load_task2 e fw df rf)) =
           [Glob (py_join df ''train'') ''train_-_'',
            CreateDataset (DataGenerator train_files window_length) batch_size_task2] \<and>
         (\<forall>dataset_train.
            create_tf_dataset fw (DataGenerator train_files window_length)
              window_length False hop_length batch_size_task2 = Inr dataset_train \<longrightarrow>
            (\<exists>val_files.
               (\<forall>p. p \<in> set val_files \<longleftrightarrow>
                      follows_convention (fs e) (py_join df ''val'') ''val_-_'' features_task2 p) \<and>
               take 2 (drop 2 (snd (fit_or_load_task2 e fw df rf))) =
                 [Glob (py_join df ''val'') ''val_-_'',
                  CreateDataset (DataGenerator val_files window_length) batch_size_task2]))"
      by (intro exI [of _ train_files] conjI)
  next
    from te(2) datasets_test_from_files(2) [OF te(1), where fw = fw]
    show "\<exists>test_files.
      (\<forall>p. p \<in> set test_files \<longleftrightarrow>
             follows_convention (fs e) (py_join df ''test'') ''test_-_'' features_task2 p) \<and>
      datasets_test_task2 e fw df =
        run_bind (do_call (Glob (py_join df ''test'') ''test_-_'') (Inr test_files)) (\<lambda>test_files.
        run_bind (lift (subjects test_files)) (\<lambda>subs.
        datasets_loop
          (\<lambda>files. make_dataset fw (DataGenerator files window_length) False 64)
          test_files subs []))"
      by (intro exI [of _ test_files] conjI)
  qed
qed

lemma shape_task1:
  assumes "fst (evaluate_model_task1 fw model td) = None"
    and "distinct (map fst td)" and "(sub, ds) \<in> set td"
    and "\<forall>results. evaluate fw model ds = Inr results \<longrightarrow>
           length results = length (metrics_names fw model)"
  shows "\<exists>d. map_of (evaluation (snd (evaluate_model_task1 fw model td))) sub = Some d \<and>
            fst ` set d = set (metrics_names fw model) \<and> distinct (map fst d) \<and>
            (\<forall>name \<in> set (metrics_names fw model). \<exists>v. map_of d name = Some (Scalar v))"
proof -
  from evaluate_model_lookup(1) [OF assms(1,2,3)] obtain d where
    b: "fst (body_task1 fw model ds) = Inr d"
    and l: "map_of (evaluation (snd (evaluate_model_task1 fw model td))) sub = Some d"
    by blast
  from b obtain results where r: "evaluate fw model ds = Inr results"
    and d: "d = py_dict (zip (metrics_names fw model) (map Scalar results))"
    by (auto simp: body_task1_result split: sum.splits)
  from assms(4) r have len: "length (metrics_names fw model) \<le> length results" by simp
  have "distinct (map fst d)" by (simp only: d py_dict_distinct)
  with py_dict_zip_scalars [OF len d] l show ?thesis by blast
qed

lemma shape_task2:
  assumes "fst (evaluate_model_task2 fw model td) = None"
    and "''pearson_correlation_per_band'' \<notin> set (metrics_names fw model)"
    and "distinct (map fst td)" and "(sub, ds) \<in> set td"
    and "\<forall>results. evaluate fw model ds = Inr results \<longrightarrow>
           length results = length (metrics_names fw model)"
  shows "\<exists>d corr per_band.
            map_of (evaluation (snd (evaluate_model_task2 fw model td))) sub = Some d \<and>
            fst ` set d = insert ''pearson_correlation_per_band'' (set (metrics_names fw model)) \<and>
            distinct (map fst d) \<and>
            correlations fw model ds = Inr corr \<and> mean_per_band fw corr = Inr per_band \<and>
            map_of d ''pearson_correlation_per_band'' = Some per_band \<and>
            (\<forall>name \<in> set (metrics_names fw model). \<exists>v. map_of d name = Some (Scalar v))"
proof -
  from evaluate_model_lookup(2) [OF assms(1,3,4)] obtain d where
    b: "fst (body_task2 fw model ds) = Inr d"
    and l: "map_of (evaluation (snd (evaluate_model_task2 fw model td))) sub = Some d"
    by blast
  from b obtain corr results per_band where r: "evaluate fw model ds = Inr results"
    and c: "correlations fw model ds = Inr corr" and pb: "mean_per_band fw corr = Inr per_band"
    and d: "d = AList.update ''pearson_correlation_per_band'' per_band
                  (py_dict (zip (metrics_names fw model) (map Scalar results)))"
    by (auto simp: body_task2_result split: sum.splits)
  let ?d0 = "py_dict (zip (metrics_names fw model) (map Scalar results))"
  from assms(5) r have len: "length (metrics_names fw model) \<le> length results" by simp
  note s = py_dict_zip_scalars [OF len refl]
  have keys: "fst ` set d = insert ''pearson_correlation_per_band'' (set (metrics_names fw model))"
    by (simp add: d update_keys_set s(1))
  have dist: "distinct (map fst d)"
    by (simp only: d AList.distinct_update py_dict_distinct)
  have band: "map_of d ''pearson_correlation_per_band'' = Some per_band"
    by (simp add: d AList.update_conv')
  have "\<exists>v. map_of d name = Some (Scalar v)" if "name \<in> set (metrics_names fw model)" for name
  proof -
    from that assms(2) have "name \<noteq> ''pearson_correlation_per_band''" by auto
    with s(2) [OF that] show ?thesis by (simp add: d AList.update_conv')
  qed
  with keys dist band l c pb show ?thesis by blast
qed

section \<open>The claims\<close>

subsection \<open>C1: grouping of the test files by subject\<close>

text \<open>
  Claim C1: the dataset of a subject is built from exactly the test files whose subject
  field equals that subject, also when one subject identifier is a substring of another
  file's basename. The scripts select with \<^verbatim>\<open>sub in os.path.basename(f)\<close>: for the two
  test files of subjects \<open>sub-1\<close> and \<open>sub-10\<close>, the files selected for \<open>sub-1\<close>
  are both files, so the file of \<open>sub-10\<close> enters the dataset of \<open>sub-1\<close>.
\<close>

theorem C1_substring_grouping:
  "subjects [''/d/test_-_sub-1_-_eeg.npy'', ''/d/test_-_sub-10_-_eeg.npy'']
     = Inr [''sub-1'', ''sub-10''] \<and>
   subject_of ''/d/test_-_sub-10_-_eeg.npy'' = Inr ''sub-10'' \<and>
   files_test_sub [''/d/test_-_sub-1_-_eeg.npy'', ''/d/test_-_sub-10_-_eeg.npy''] ''sub-1''
     = [''/d/test_-_sub-1_-_eeg.npy'', ''/d/test_-_sub-10_-_eeg.npy'']"
  by (simp add: subjects_def subject_of_def files_test_sub_def basename_def py_split_def
                py_index_def)

subsection \<open>C2: the train, validation and test file lists\<close>

text \<open>
  Claim C2: a candidate path (the path of an entry of a directory that the search of a
  split reads) is in the train, validation or test file list if and only if the last
  \<open>_-_\<close>-separated token of its basename, cut at the first dot, is one of the
  features, and its basename begins with the prefix of the split. The feature lists are
  \<open>eeg, envelope\<close> for the match-mismatch script and \<open>eeg, mel\<close> for the regression
  script. The lists are the ones the scripts use: in training mode the first two calls
  of the training branch are the search for train files and the creation of the dataset
  of a generator over the train list, and, once that dataset exists, the next two are
  the same for the validation list; the test stage is lines 132 to 144 run on the test
  list. The names of directory entries contain no slash.
\<close>

theorem C2_file_lists:
  assumes "\<forall>d. list_all (\<lambda>n. CHR ''/'' \<notin> set n) (listdir (fs e) d)"
  shows
  "features_task1 = [''eeg'', ''envelope''] \<and> features_task2 = [''eeg'', ''mel''] \<and>
   (\<not> only_evaluate e \<longrightarrow>
      (\<exists>train_files.
         (\<forall>p. p \<in> set train_files \<longleftrightarrow>
                follows_convention (fs e) df ''train_-_'' features_task1 p) \<and>
         take 2 (snd (fit_or_load_task1 e fw df rf)) =
           [Glob df ''train_-_'',
            CreateDataset (MatchMismatchDataGenerator train_files window_length spacing)
              batch_size_task1] \<and>
         (\<forall>dataset_train.
            create_tf_dataset fw (MatchMismatchDataGenerator train_files window_length spacing)
              window_length True hop_length batch_size_task1 = Inr dataset_train \<longrightarrow>
            (\<exists>val_files.
               (\<forall>p. p \<in> set val_files \<longleftrightarrow>
                      follows_convention (fs e) df ''val_-_'' features_task1 p) \<and>
               take 2 (drop 2 (snd (fit_or_load_task1 e fw df rf))) =
                 [Glob df ''val_-_'',
                  CreateDataset (MatchMismatchDataGenerator val_files window_length spacing)
                    batch_size_task1])))) \<and>
   (\<exists>test_files.
      (\<forall>p. p \<in> set test_files \<longleftrightarrow>
             follows_convention (fs e) df ''test_-_'' features_task1 p) \<and>
      datasets_test_task1 e fw df =
        run_bind (do_call (Glob df ''test_-_'') (Inr test_files)) (\<lambda>test_files.
        run_bind (lift (subjects test_files)) (\<lambda>subs.
        datasets_loop
          (\<lambda>files. make_dataset fw
             (MatchMismatchDataGenerator files window_length spacing) True 1)
          test_files subs []))) \<and>
   (\<not> only_evaluate e \<longrightarrow>
      (\<exists>train_files.
         (\<forall>p. p \<in> set train_files \<longleftrightarrow>
                follows_convention (fs e) (py_join df ''train'') ''train_-_'' features_task2 p) \<and>
         take 2 (snd (fit_or_load_task2 e fw df rf)) =
           [Glob (py_join df ''train'') ''train_-_'',
            CreateDataset (DataGenerator train_files window_length) batch_size_task2] \<and>
         (\<forall>dataset_train.
            create_tf_dataset fw (DataGenerator train_files window_length)
              window_length False hop_length batch_size_task2 = Inr dataset_train \<longrightarrow>
            (\<exists>val_files.
               (\<forall>p. p \<in> set val_files \<longleftrightarrow>
                      follows_convention (fs e) (py_join df ''val'') ''val_-_'' features_task2 p) \<and>
               take 2 (drop 2 (snd (fit_or_load_task2 e fw df rf))) =
                 [Glob (py_join df ''val'') ''val_-_'',
                  CreateDataset (DataGenerator val_files window_length) batch_size_task2])))) \<and>
   (\<exists>test_files.
      (\<forall>p. p \<in> set test_files \<longleftrightarrow>
             follows_convention (fs e) (py_join df ''test'') ''test_-_'' features_task2 p) \<and>
      datasets_test_task2 e fw df =
        run_bind (do_call (Glob (py_join df ''test'') ''test_-_'') (Inr test_files)) (\<lambda>test_files.
        run_bind (lift (subjects test_files)) (\<lambda>subs.
        datasets_loop (\<lambda>files. make_dataset fw (DataGenerator files window_length) False 64)
          test_files subs [])))"
proof -
  have f: "features_task1 = [''eeg'', ''envelope'']" "features_task2 = [''eeg'', ''mel'']"
    by (simp_all add: features_task1_def features_task2_def)
  from f file_lists_task1 [OF assms, of df fw rf] file_lists_task2 [OF assms, of df fw rf]
  show ?thesis by (intro conjI) (elim conjE; assumption)+
qed

text \<open>
  The match-mismatch script in training mode, with the dataset folder \<^verbatim>\<open>/d/g[1]\<close>: the
  lists hold files of the directory \<^verbatim>\<open>/d/g1/s\<close>, which the pattern matches.
\<close>

theorem C2_file_lists_witness:
  "\<not> only_evaluate pattern_env \<and>
   follows_convention (fs pattern_env) ''/d/g[1]/s'' ''train_-_'' features_task1
     ''/d/g1/s/train_-_z_-_eeg.npy'' \<and>
   \<not> follows_convention (fs pattern_env) ''/d/g[1]/s'' ''train_-_'' features_task1
     ''/d/g1/s/train_-_z_-_mel.npy'' \<and>
   \<not> follows_convention (fs pattern_env) ''/d/g[1]/s'' ''train_-_'' features_task1
     ''/d/g[1]/s/train_-_x_-_eeg.npy'' \<and>
   take 4 (snd (fit_or_load_task1 pattern_env demo_framework ''/d/g[1]/s'' ''/x/r'')) =
     [Glob ''/d/g[1]/s'' ''train_-_'',
      CreateDataset (MatchMismatchDataGenerator [''/d/g1/s/train_-_z_-_eeg.npy''] 320 64) 64,
      Glob ''/d/g[1]/s'' ''val_-_'',
      CreateDataset (MatchMismatchDataGenerator [''/d/g1/s/val_-_z_-_envelope.npy''] 320 64) 64]"
proof -
  have h: "\<forall>d. list_all (\<lambda>n. CHR ''/'' \<notin> set n) (listdir (fs pattern_env) d)"
    by (simp add: pattern_env_def pattern_fs_def)
  have ne: "\<not> only_evaluate pattern_env"
    by (simp add: pattern_env_def)
  have tk: "take 2 (snd (fit_or_load_task1 pattern_env demo_framework ''/d/g[1]/s'' ''/x/r'')) =
     [Glob ''/d/g[1]/s'' ''train_-_'',
      CreateDataset (MatchMismatchDataGenerator [''/d/g1/s/train_-_z_-_eeg.npy'']
                       window_length spacing) batch_size_task1]"
    by code_simp
  have t4: "take 4 (snd (fit_or_load_task1 pattern_env demo_framework ''/d/g[1]/s'' ''/x/r'')) =
     [Glob ''/d/g[1]/s'' ''train_-_'',
      CreateDataset (MatchMismatchDataGenerator [''/d/g1/s/train_-_z_-_eeg.npy''] 320 64) 64,
      Glob ''/d/g[1]/s'' ''val_-_'',
      CreateDataset (MatchMismatchDataGenerator [''/d/g1/s/val_-_z_-_envelope.npy''] 320 64) 64]"
    by code_simp
  from C2_file_lists
         [OF h, where df = "''/d/g[1]/s''" and fw = demo_framework and rf = "''/x/r''",
          THEN conjunct2, THEN conjunct2, THEN conjunct1, THEN mp, OF ne]
  obtain train_files where
    iff: "\<forall>p. p \<in> set train_files \<longleftrightarrow>
            follows_convention (fs pattern_env) ''/d/g[1]/s'' ''train_-_'' features_task1 p"
    and t: "take 2 (snd (fit_or_load_task1 pattern_env demo_framework ''/d/g[1]/s'' ''/x/r'')) =
              [Glob ''/d/g[1]/s'' ''train_-_'',
               CreateDataset (MatchMismatchDataGenerator train_files window_length spacing)
                 batch_size_task1]"
    by (elim exE conjE)
  from t tk have tf: "train_files = [''/d/g1/s/train_-_z_-_eeg.npy'']"
    by simp
  have a: "follows_convention (fs pattern_env) ''/d/g[1]/s'' ''train_-_'' features_task1
             ''/d/g1/s/train_-_z_-_eeg.npy''"
    using iff [rule_format, of "''/d/g1/s/train_-_z_-_eeg.npy''"] by (simp add: tf)
  have b: "\<not> follows_convention (fs pattern_env) ''/d/g[1]/s'' ''train_-_'' features_task1
             ''/d/g1/s/train_-_z_-_mel.npy''"
    using iff [rule_format, of "''/d/g1/s/train_-_z_-_mel.npy''"] by (simp add: tf)
  have c: "\<not> follows_convention (fs pattern_env) ''/d/g[1]/s'' ''train_-_'' features_task1
             ''/d/g[1]/s/train_-_x_-_eeg.npy''"
    using iff [rule_format, of "''/d/g[1]/s/train_-_x_-_eeg.npy''"] by (simp add: tf)
  show ?thesis by (intro conjI ne a b c t4)
qed

subsection \<open>C3: the shape of the evaluation\<close>

text \<open>
  Claim C3: \<^verbatim>\<open>evaluate_model\<close> returns a mapping from subject to a dictionary from
  metric name to a scalar, and in the regression script the dictionary of a subject has
  the further key \<open>pearson_correlation_per_band\<close>, whose value is a list, the mean
  correlation of each band. The regression script is run here on two subjects whose
  windows have two bands. For the subject with two windows the value is the list of the
  two band means. For the subject with one window \<^verbatim>\<open>np.squeeze\<close> has removed the window
  axis as well, the mean over axis 0 runs over the bands, and the value stored is the
  single number 6, not a list.
\<close>

theorem C3_per_band_value:
  "returned (evaluate_model_task2 window_framework 0
               [(''sub-001'', [[4, 8]]), (''sub-002'', [[4, 8], [2, 6]])]) =
     (Inr [(''sub-001'',
            [(''loss'', Scalar 1), (''pearson_metric_cut'', Scalar 0),
             (''pearson_correlation_per_band'', Scalar 6)]),
           (''sub-002'',
            [(''loss'', Scalar 2), (''pearson_metric_cut'', Scalar 0),
             (''pearson_correlation_per_band'', ListOf [3, 7])])],
      [Predict [[4, 8]], Evaluate [[4, 8]],
       Predict [[4, 8], [2, 6]], Evaluate [[4, 8], [2, 6]]])"
  by code_simp

subsection \<open>C4: the subjects that are evaluated\<close>

text \<open>
  Claim C4: when a script completes, the keys of the evaluation (which is what is
  written to \<^verbatim>\<open>eval.json\<close> by the last call of the run) are exactly the second
  \<open>_-_\<close>-separated tokens of the basenames of the selected test files; every selected
  test file has such a token; and each key occurs once.
\<close>

theorem C4_subjects_evaluated:
  "(\<forall>ev. fst (main_task1 e fw) = Inr ev \<longrightarrow>
      (\<exists>df test_files.
          data_folder_task1 (config e) = Inr df \<and>
          split_files (fs e) df ''test_-_'' features_task1 = Inr test_files \<and>
          list_all (\<lambda>x. 1 < length (py_split ''_-_'' (basename x))) test_files \<and>
          set (map fst ev) = (\<lambda>x. py_split ''_-_'' (basename x) ! 1) ` set test_files \<and>
          distinct (map fst ev) \<and>
          last (snd (main_task1 e fw)) =
            JsonDump (py_join (py_join (experiments_folder e)
                                 ''results_dilated_convolutional_model'') ''eval.json'')
                     (json_dumps fw ev))) \<and>
   (\<forall>ev. fst (main_task2 e fw) = Inr ev \<longrightarrow>
      (\<exists>df test_files.
          data_folder_task2 (config e) = Inr df \<and>
          split_files (fs e) (py_join df ''test'') ''test_-_'' features_task2 = Inr test_files \<and>
          list_all (\<lambda>x. 1 < length (py_split ''_-_'' (basename x))) test_files \<and>
          set (map fst ev) = (\<lambda>x. py_split ''_-_'' (basename x) ! 1) ` set test_files \<and>
          distinct (map fst ev) \<and>
          last (snd (main_task2 e fw)) =
            JsonDump (py_join (py_join (experiments_folder e) ''results_vlaai_mel'') ''eval.json'')
                     (json_dumps fw ev)))"
proof (intro conjI allI impI)
  fix ev
  assume ok: "fst (main_task1 e fw) = Inr ev"
  from main_task1_success [OF ok refl] obtain df model td where
    s: "data_folder_task1 (config e) = Inr df"
       "fst (datasets_test_task1 e fw df) = Inr td"
       "fst (evaluate_model_task1 fw model td) = None"
       "ev = evaluation (snd (evaluate_model_task1 fw model td))"
    and tr: "last (snd (main_task1 e fw)) =
       JsonDump (py_join (py_join (experiments_folder e)
                                 ''results_dilated_convolutional_model'') ''eval.json'')
                     (json_dumps fw ev)"
    by force
  from datasets_test_task1_success [OF s(2)] evaluate_model_keys(1) [OF s(3)] s(1,4) tr
  show "\<exists>df test_files.
          data_folder_task1 (config e) = Inr df \<and>
          split_files (fs e) df ''test_-_'' features_task1 = Inr test_files \<and>
          list_all (\<lambda>x. 1 < length (py_split ''_-_'' (basename x))) test_files \<and>
          set (map fst ev) = (\<lambda>x. py_split ''_-_'' (basename x) ! 1) ` set test_files \<and>
          distinct (map fst ev) \<and>
          last (snd (main_task1 e fw)) =
            JsonDump (py_join (py_join (experiments_folder e)
                                 ''results_dilated_convolutional_model'') ''eval.json'')
                     (json_dumps fw ev)"
    by auto
next
  fix ev
  assume ok: "fst (main_task2 e fw) = Inr ev"
  from main_task2_success [OF ok refl] obtain df model td where
    s: "data_folder_task2 (config e) = Inr df"
       "fst (datasets_test_task2 e fw df) = Inr td"
       "fst (evaluate_model_task2 fw model td) = None"
       "ev = evaluation (snd (evaluate_model_task2 fw model td))"
    and tr: "last (snd (main_task2 e fw)) =
       JsonDump (py_join (py_join (experiments_folder e) ''results_vlaai_mel'') ''eval.json'')
                     (json_dumps fw ev)"
    by force
  from datasets_test_task2_success [OF s(2)] evaluate_model_keys(2) [OF s(3)] s(1,4) tr
  show "\<exists>df test_files.
          data_folder_task2 (config e) = Inr df \<and>
          split_files (fs e) (py_join df ''test'') ''test_-_'' features_task2 = Inr test_files \<and>
          list_all (\<lambda>x. 1 < length (py_split ''_-_'' (basename x))) test_files \<and>
          set (map fst ev) = (\<lambda>x. py_split ''_-_'' (basename x) ! 1) ` set test_files \<and>
          distinct (map fst ev) \<and>
          last (snd (main_task2 e fw)) =
            JsonDump (py_join (py_join (experiments_folder e) ''results_vlaai_mel'') ''eval.json'')
                     (json_dumps fw ev)"
    by auto
qed

text \<open>The runs of both scripts on the small instance.\<close>

theorem C4_subjects_evaluated_witness:
  "fst (main_task1 demo_env demo_framework)
     = Inr [(''a'', [(''loss'', Scalar 3), (''acc'', Scalar 0)])] \<and>
   (\<exists>df test_files.
      data_folder_task1 (config demo_env) = Inr df \<and>
      split_files (fs demo_env) df ''test_-_'' features_task1 = Inr test_files \<and>
      {''a''} = (\<lambda>x. py_split ''_-_'' (basename x) ! 1) ` set test_files) \<and>
   fst (main_task2 demo_env demo_framework)
     = Inr [(''a'', [(''loss'', Scalar 3), (''acc'', Scalar 0),
                     (''pearson_correlation_per_band'', ListOf [1, 2])])] \<and>
   (\<exists>df test_files.
      data_folder_task2 (config demo_env) = Inr df \<and>
      split_files (fs demo_env) (py_join df ''test'') ''test_-_'' features_task2
        = Inr test_files \<and>
      {''a''} = (\<lambda>x. py_split ''_-_'' (basename x) ! 1) ` set test_files)"
proof -
  have h1: "fst (main_task1 demo_env demo_framework)
             = Inr [(''a'', [(''loss'', Scalar 3), (''acc'', Scalar 0)])]"
    by code_simp
  have h2: "fst (main_task2 demo_env demo_framework)
             = Inr [(''a'', [(''loss'', Scalar 3), (''acc'', Scalar 0),
                             (''pearson_correlation_per_band'', ListOf [1, 2])])]"
    by code_simp
  from C4_subjects_evaluated [THEN conjunct1, rule_format, OF h1]
  have a: "\<exists>df test_files.
      data_folder_task1 (config demo_env) = Inr df \<and>
      split_files (fs demo_env) df ''test_-_'' features_task1 = Inr test_files \<and>
      {''a''} = (\<lambda>x. py_split ''_-_'' (basename x) ! 1) ` set test_files"
    by auto
  from C4_subjects_evaluated [THEN conjunct2, rule_format, OF h2]
  have b: "\<exists>df test_files.
      data_folder_task2 (config demo_env) = Inr df \<and>
      split_files (fs demo_env) (py_join df ''test'') ''test_-_'' features_task2
        = Inr test_files \<and>
      {''a''} = (\<lambda>x. py_split ''_-_'' (basename x) ! 1) ` set test_files"
    by auto
  show ?thesis by (intro conjI h1 h2 a b)
qed

subsection \<open>C5: exceptions during the evaluation\<close>

text \<open>
  Claim C5: errors are propagated, not recovered. If the loop body of
  \<^verbatim>\<open>evaluate_model\<close> raises for some subject of the test dictionary the script has
  built, then \<^verbatim>\<open>evaluate_model\<close> raises: the exception is the one of the first
  subject, in iteration order, whose body raises; the subjects before it were evaluated
  once each, that subject once, and none after it. The script ends with the same
  exception, and no call of its run is the \<^verbatim>\<open>json.dump\<close> of the results.
\<close>

theorem C5_errors_propagate:
  "(\<forall>df model td sub ds err.
      data_folder_task1 (config e) = Inr df \<and>
      fst (fit_or_load_task1 e fw df
             (py_join (experiments_folder e) ''results_dilated_convolutional_model''))
        = Inr model \<and>
      fst (datasets_test_task1 e fw df) = Inr td \<and>
      (sub, ds) \<in> set td \<and> fst (body_task1 fw model ds) = Inl err \<longrightarrow>
      (\<exists>e' before sub' ds' after.
          td = before @ (sub', ds') # after \<and>
          list_all (\<lambda>item. \<exists>d. fst (body_task1 fw model (snd item)) = Inr d) before \<and>
          fst (body_task1 fw model ds') = Inl e' \<and>
          fst (evaluate_model_task1 fw model td) = Some e' \<and>
          em_calls (snd (evaluate_model_task1 fw model td)) =
            concat (map (\<lambda>item. snd (body_task1 fw model (snd item))) (before @ [(sub', ds')])) \<and>
          fst (main_task1 e fw) = Inl e' \<and>
          list_all (\<lambda>c. \<not> is_json_dump c) (snd (main_task1 e fw)))) \<and>
   (\<forall>df model td sub ds err.
      data_folder_task2 (config e) = Inr df \<and>
      fst (fit_or_load_task2 e fw df (py_join (experiments_folder e) ''results_vlaai_mel''))
        = Inr model \<and>
      fst (datasets_test_task2 e fw df) = Inr td \<and>
      (sub, ds) \<in> set td \<and> fst (body_task2 fw model ds) = Inl err \<longrightarrow>
      (\<exists>e' before sub' ds' after.
          td = before @ (sub', ds') # after \<and>
          list_all (\<lambda>item. \<exists>d. fst (body_task2 fw model (snd item)) = Inr d) before \<and>
          fst (body_task2 fw model ds') = Inl e' \<and>
          fst (evaluate_model_task2 fw model td) = Some e' \<and>
          em_calls (snd (evaluate_model_task2 fw model td)) =
            concat (map (\<lambda>item. snd (body_task2 fw model (snd item))) (before @ [(sub', ds')])) \<and>
          fst (main_task2 e fw) = Inl e' \<and>
          list_all (\<lambda>c. \<not> is_json_dump c) (snd (main_task2 e fw))))"
proof (intro conjI allI impI)
  fix df model td sub ds err
  assume "data_folder_task1 (config e) = Inr df \<and>
      fst (fit_or_load_task1 e fw df
             (py_join (experiments_folder e) ''results_dilated_convolutional_model''))
        = Inr model \<and>
      fst (datasets_test_task1 e fw df) = Inr td \<and>
      (sub, ds) \<in> set td \<and> fst (body_task1 fw model ds) = Inl err"
  then show "\<exists>e' before sub' ds' after.
          td = before @ (sub', ds') # after \<and>
          list_all (\<lambda>item. \<exists>d. fst (body_task1 fw model (snd item)) = Inr d) before \<and>
          fst (body_task1 fw model ds') = Inl e' \<and>
          fst (evaluate_model_task1 fw model td) = Some e' \<and>
          em_calls (snd (evaluate_model_task1 fw model td)) =
            concat (map (\<lambda>item. snd (body_task1 fw model (snd item))) (before @ [(sub', ds')])) \<and>
          fst (main_task1 e fw) = Inl e' \<and>
          list_all (\<lambda>c. \<not> is_json_dump c) (snd (main_task1 e fw))"
    by (elim conjE) (rule errors_propagate_task1)
next
  fix df model td sub ds err
  assume "data_folder_task2 (config e) = Inr df \<and>
      fst (fit_or_load_task2 e fw df (py_join (experiments_folder e) ''results_vlaai_mel''))
        = Inr model \<and>
      fst (datasets_test_task2 e fw df) = Inr td \<and>
      (sub, ds) \<in> set td \<and> fst (body_task2 fw model ds) = Inl err"
  then show "\<exists>e' before sub' ds' after.
          td = before @ (sub', ds') # after \<and>
          list_all (\<lambda>item. \<exists>d. fst (body_task2 fw model (snd item)) = Inr d) before \<and>
          fst (body_task2 fw model ds') = Inl e' \<and>
          fst (evaluate_model_task2 fw model td) = Some e' \<and>
          em_calls (snd (evaluate_model_task2 fw model td)) =
            concat (map (\<lambda>item. snd (body_task2 fw model (snd item))) (before @ [(sub', ds')])) \<and>
          fst (main_task2 e fw) = Inl e' \<and>
          list_all (\<lambda>c. \<not> is_json_dump c) (snd (main_task2 e fw))"
    by (elim conjE) (rule errors_propagate_task2)
qed

text \<open>A subject with a single file, whose evaluation raises, in both scripts.\<close>

theorem C5_errors_propagate_witness:
  "fst (datasets_test_task1 incomplete_env demo_framework ''/d/s'')
     = Inr [(''b'', [''/d/s/test_-_b_-_eeg.npy''])] \<and>
   fst (body_task1 demo_framework 1 [''/d/s/test_-_b_-_eeg.npy''])
     = Inl (RuntimeError ''incomplete'') \<and>
   fst (main_task1 incomplete_env demo_framework) = Inl (RuntimeError ''incomplete'') \<and>
   list_all (\<lambda>c. \<not> is_json_dump c) (snd (main_task1 incomplete_env demo_framework)) \<and>
   fst (datasets_test_task2 incomplete_env demo_framework ''/d/v/s'')
     = Inr [(''b'', [''/d/v/s/test/test_-_b_-_eeg.npy''])] \<and>
   fst (body_task2 demo_framework 1 [''/d/v/s/test/test_-_b_-_eeg.npy''])
     = Inl (RuntimeError ''incomplete'') \<and>
   fst (main_task2 incomplete_env demo_framework) = Inl (RuntimeError ''incomplete'') \<and>
   list_all (\<lambda>c. \<not> is_json_dump c) (snd (main_task2 incomplete_env demo_framework))"
proof -
  have df1: "data_folder_task1 (config incomplete_env) = Inr ''/d/s''" by code_simp
  have fl1: "fst (fit_or_load_task1 incomplete_env demo_framework ''/d/s''
                   (py_join (experiments_folder incomplete_env)
                      ''results_dilated_convolutional_model'')) = Inr 1"
    by code_simp
  have dt1: "fst (datasets_test_task1 incomplete_env demo_framework ''/d/s'')
              = Inr [(''b'', [''/d/s/test_-_b_-_eeg.npy''])]"
    by code_simp
  have m1: "(''b'', [''/d/s/test_-_b_-_eeg.npy'']) \<in> set [(''b'', [''/d/s/test_-_b_-_eeg.npy''])]"
    by simp
  have b1: "fst (body_task1 demo_framework 1 [''/d/s/test_-_b_-_eeg.npy''])
             = Inl (RuntimeError ''incomplete'')"
    by code_simp
  have r1: "fst (main_task1 incomplete_env demo_framework) = Inl (RuntimeError ''incomplete'')"
    by code_simp
  from C5_errors_propagate
         [THEN conjunct1, rule_format,
          OF conjI [OF df1 conjI [OF fl1 conjI [OF dt1 conjI [OF m1 b1]]]]]
  have n1: "list_all (\<lambda>c. \<not> is_json_dump c) (snd (main_task1 incomplete_env demo_framework))"
    by (elim exE conjE)
  have df2: "data_folder_task2 (config incomplete_env) = Inr ''/d/v/s''" by code_simp
  have fl2: "fst (fit_or_load_task2 incomplete_env demo_framework ''/d/v/s''
                   (py_join (experiments_folder incomplete_env) ''results_vlaai_mel'')) = Inr 1"
    by code_simp
  have dt2: "fst (datasets_test_task2 incomplete_env demo_framework ''/d/v/s'')
              = Inr [(''b'', [''/d/v/s/test/test_-_b_-_eeg.npy''])]"
    by code_simp
  have m2: "(''b'', [''/d/v/s/test/test_-_b_-_eeg.npy''])
              \<in> set [(''b'', [''/d/v/s/test/test_-_b_-_eeg.npy''])]"
    by simp
  have b2: "fst (body_task2 demo_framework 1 [''/d/v/s/test/test_-_b_-_eeg.npy''])
             = Inl (RuntimeError ''incomplete'')"
    by code_simp
  have r2: "fst (main_task2 incomplete_env demo_framework) = Inl (RuntimeError ''incomplete'')"
    by code_simp
  from C5_errors_propagate
         [THEN conjunct2, rule_format,
          OF conjI [OF df2 conjI [OF fl2 conjI [OF dt2 conjI [OF m2 b2]]]]]
  have n2: "list_all (\<lambda>c. \<not> is_json_dump c) (snd (main_task2 incomplete_env demo_framework))"
    by (elim exE conjE)
  show ?thesis by (intro conjI dt1 b1 r1 n1 dt2 b2 r2 n2)
qed

subsection \<open>C6: evaluate-only mode\<close>

text \<open>
  Claim C6: when \<open>only_evaluate\<close> is true, the run starts by creating the results
  folder and loading the model (task 1) or its weights (task 2) from \<^verbatim>\<open>model.h5\<close>;
  every later call belongs to the evaluation or is the \<^verbatim>\<open>json.dump\<close> into
  \<^verbatim>\<open>eval.json\<close>. No call of the run searches train or validation files or is
  \<^verbatim>\<open>model.fit\<close>, and no call writes \<^verbatim>\<open>model.h5\<close> or \<^verbatim>\<open>training_log.csv\<close>.
\<close>

theorem C6_only_evaluate:
  assumes "only_evaluate e"
  shows
   "(\<forall>df. data_folder_task1 (config e) = Inr df \<longrightarrow>
       (\<exists>rest.
          snd (main_task1 e fw) =
            [Makedirs (py_join (experiments_folder e) ''results_dilated_convolutional_model''),
             LoadModel (py_join (py_join (experiments_folder e)
                                   ''results_dilated_convolutional_model'') ''model.h5'')] @ rest \<and>
          list_all (evaluation_call (glob_prefix (fs e) df ''test_-_'')
                      (py_join (py_join (experiments_folder e)
                                  ''results_dilated_convolutional_model'') ''eval.json''))
            rest)) \<and>
    list_all (\<lambda>c. \<not> training_call c \<and>
                 py_join (py_join (experiments_folder e) ''results_dilated_convolutional_model'')
                   ''model.h5'' \<notin> set (written_paths c) \<and>
                 py_join (py_join (experiments_folder e) ''results_dilated_convolutional_model'')
                   ''training_log.csv'' \<notin> set (written_paths c))
      (snd (main_task1 e fw)) \<and>
    (\<forall>df. data_folder_task2 (config e) = Inr df \<longrightarrow>
       (\<exists>rest.
          snd (main_task2 e fw) =
            [Makedirs (py_join (experiments_folder e) ''results_vlaai_mel''),
             LoadWeights (py_join (py_join (experiments_folder e) ''results_vlaai_mel'')
                            ''model.h5'')] @ rest \<and>
          list_all (evaluation_call (glob_prefix (fs e) (py_join df ''test'') ''test_-_'')
                      (py_join (py_join (experiments_folder e) ''results_vlaai_mel'')
                         ''eval.json''))
            rest)) \<and>
    list_all (\<lambda>c. \<not> training_call c \<and>
                 py_join (py_join (experiments_folder e) ''results_vlaai_mel'') ''model.h5''
                   \<notin> set (written_paths c) \<and>
                 py_join (py_join (experiments_folder e) ''results_vlaai_mel'')
                   ''training_log.csv'' \<notin> set (written_paths c))
      (snd (main_task2 e fw))"
proof (intro conjI allI impI)
  fix df
  assume "data_folder_task1 (config e) = Inr df"
  from main_task1_only_evaluate [OF assms this refl, of fw]
  show "\<exists>rest.
          snd (main_task1 e fw) =
            [Makedirs (py_join (experiments_folder e) ''results_dilated_convolutional_model''),
             LoadModel (py_join (py_join (experiments_folder e)
                                   ''results_dilated_convolutional_model'') ''model.h5'')] @ rest \<and>
          list_all (evaluation_call (glob_prefix (fs e) df ''test_-_'')
                      (py_join (py_join (experiments_folder e)
                                  ''results_dilated_convolutional_model'') ''eval.json''))
            rest" .
next
  fix df
  assume "data_folder_task2 (config e) = Inr df"
  from main_task2_only_evaluate [OF assms this refl, of fw]
  show "\<exists>rest.
          snd (main_task2 e fw) =
            [Makedirs (py_join (experiments_folder e) ''results_vlaai_mel''),
             LoadWeights (py_join (py_join (experiments_folder e) ''results_vlaai_mel'')
                            ''model.h5'')] @ rest \<and>
          list_all (evaluation_call (glob_prefix (fs e) (py_join df ''test'') ''test_-_'')
                      (py_join (py_join (experiments_folder e) ''results_vlaai_mel'')
                         ''eval.json''))
            rest" .
next
  show "list_all (\<lambda>c. \<not> training_call c \<and>
                 py_join (py_join (experiments_folder e) ''results_dilated_convolutional_model'')
                   ''model.h5'' \<notin> set (written_paths c) \<and>
                 py_join (py_join (experiments_folder e) ''results_dilated_convolutional_model'')
                   ''training_log.csv'' \<notin> set (written_paths c))
      (snd (main_task1 e fw))"
    by (rule only_evaluate_trace_task1 [OF assms refl])
next
  show "list_all (\<lambda>c. \<not> training_call c \<and>
                 py_join (py_join (experiments_folder e) ''results_vlaai_mel'') ''model.h5''
                   \<notin> set (written_paths c) \<and>
                 py_join (py_join (experiments_folder e) ''results_vlaai_mel'')
                   ''training_log.csv'' \<notin> set (written_paths c))
      (snd (main_task2 e fw))"
    by (rule only_evaluate_trace_task2 [OF assms refl])
qed

text \<open>The small instance runs both scripts in evaluate-only mode.\<close>

theorem C6_only_evaluate_witness:
  "only_evaluate demo_env \<and>
   list_all (\<lambda>c. \<not> training_call c \<and>
                 py_join (py_join (experiments_folder demo_env)
                            ''results_dilated_convolutional_model'')
                   ''model.h5'' \<notin> set (written_paths c) \<and>
                 py_join (py_join (experiments_folder demo_env)
                            ''results_dilated_convolutional_model'')
                   ''training_log.csv'' \<notin> set (written_paths c))
      (snd (main_task1 demo_env demo_framework)) \<and>
   take 2 (snd (main_task1 demo_env demo_framework)) =
     [Makedirs ''/x/results_dilated_convolutional_model'',
      LoadModel ''/x/results_dilated_convolutional_model/model.h5''] \<and>
   list_all (\<lambda>c. \<not> training_call c \<and>
                 py_join (py_join (experiments_folder demo_env) ''results_vlaai_mel'')
                   ''model.h5'' \<notin> set (written_paths c) \<and>
                 py_join (py_join (experiments_folder demo_env) ''results_vlaai_mel'')
                   ''training_log.csv'' \<notin> set (written_paths c))
      (snd (main_task2 demo_env demo_framework)) \<and>
   take 2 (snd (main_task2 demo_env demo_framework)) =
     [Makedirs ''/x/results_vlaai_mel'', LoadWeights ''/x/results_vlaai_mel/model.h5'']"
proof -
  have h: "only_evaluate demo_env" by (simp add: demo_env_def)
  have t1: "take 2 (snd (main_task1 demo_env demo_framework)) =
     [Makedirs ''/x/results_dilated_convolutional_model'',
      LoadModel ''/x/results_dilated_convolutional_model/model.h5'']"
    by code_simp
  have t2: "take 2 (snd (main_task2 demo_env demo_framework)) =
     [Makedirs ''/x/results_vlaai_mel'', LoadWeights ''/x/results_vlaai_mel/model.h5'']"
    by code_simp
  note c = C6_only_evaluate [OF h, of demo_framework]
  show ?thesis
    by (intro conjI h t1 t2 c [THEN conjunct2, THEN conjunct1]
              c [THEN conjunct2, THEN conjunct2, THEN conjunct2])
qed

subsection \<open>C7: the command line\<close>

text \<open>
  Claim C7: neither script reads its command-line arguments. Two runs of a script whose
  surroundings differ in nothing but the command line make the same calls, in the same
  order, and end with the same exception or the same evaluation.
\<close>

theorem C7_no_command_line:
  "main_task1 (e\<lparr>argv := a1\<rparr>) fw = main_task1 (e\<lparr>argv := a2\<rparr>) fw \<and>
   main_task2 (e\<lparr>argv := a1\<rparr>) fw = main_task2 (e\<lparr>argv := a2\<rparr>) fw"
  by (simp add: main_argv)

subsection \<open>C8: the dictionary of one subject\<close>

text \<open>
  Claim C8, as stated: the number of entries of \<^verbatim>\<open>dict(zip(metrics_names, results))\<close>
  equals the minimum of the two lengths. With the name \<open>acc\<close> reported twice the
  dictionary has one entry, not two.
\<close>

theorem C8_counterexample:
  "length (py_dict (zip [''acc'', ''acc''] [Scalar (1::int), Scalar 2]))
     \<noteq> min (length [''acc'', ''acc'']) (length [Scalar (1::int), Scalar 2])"
  by (simp add: py_dict_def)

text \<open>
  Claim C8, amended: whenever \<^verbatim>\<open>model.evaluate\<close> returns, whatever the two lengths
  are, the subject's dictionary is \<^verbatim>\<open>dict(zip(metrics_names, results))\<close> (in the
  regression script with the per-band entry stored into it afterwards) and nothing is
  raised. Its number of entries is the number of distinct names among the first
  \<open>min (len names) (len results)\<close> metric names, which is that minimum when these names
  are distinct; names or values beyond the shorter list are dropped; and a name is
  mapped to the value at its last position within the zipped range.
\<close>

theorem C8_dict_zip:
  assumes "evaluate fw model ds = Inr results"
  shows "let names = metrics_names fw model;
             d = py_dict (zip names (map Scalar results))
         in fst (body_task1 fw model ds) = Inr d \<and>
            (\<forall>corr. correlations fw model ds = Inr corr \<longrightarrow>
               fst (body_task2 fw model ds) =
                 (case mean_per_band fw corr of
                    Inl err \<Rightarrow> Inl err
                  | Inr per_band \<Rightarrow>
                      Inr (AList.update ''pearson_correlation_per_band'' per_band d))) \<and>
            length d = card (set (take (length results) names)) \<and>
            (distinct (take (length results) names) \<longrightarrow>
               length d = min (length names) (length results)) \<and>
            (\<forall>j. j < length names \<and> j < length results \<and>
                 (\<forall>i. j < i \<and> i < length names \<and> i < length results
                        \<longrightarrow> names ! i \<noteq> names ! j)
                 \<longrightarrow> map_of d (names ! j) = Some (Scalar (results ! j)))"
  unfolding Let_def
proof (intro conjI allI impI)
  let ?names = "metrics_names fw model"
  let ?d = "py_dict (zip ?names (map Scalar results))"
  show "fst (body_task1 fw model ds) = Inr ?d"
    using assms by (simp add: body_task1_result)
  show "length ?d = card (set (take (length results) ?names))"
    using py_dict_zip_length [of ?names "map Scalar results"] by simp
  show "length ?d = min (length ?names) (length results)"
    if "distinct (take (length results) ?names)"
    using that py_dict_zip_length_distinct [of "map Scalar results" ?names] by simp
  show "fst (body_task2 fw model ds) =
      (case mean_per_band fw corr of
         Inl err \<Rightarrow> Inl err
       | Inr per_band \<Rightarrow> Inr (AList.update ''pearson_correlation_per_band'' per_band ?d))"
    if "correlations fw model ds = Inr corr" for corr
    using that assms by (simp add: body_task2_result)
  show "map_of ?d (?names ! j) = Some (Scalar (results ! j))"
    if j: "j < length ?names \<and> j < length results \<and>
              (\<forall>i. j < i \<and> i < length ?names \<and> i < length results
                     \<longrightarrow> ?names ! i \<noteq> ?names ! j)" for j
  proof -
    from j have "map_of (rev (zip ?names (map Scalar results))) (?names ! j)
                   = Some (map Scalar results ! j)"
      by (intro map_of_rev_zip_last) simp_all
    then show ?thesis using j by (simp add: py_dict_map_of)
  qed
qed

text \<open>Three results for the names \<open>loss, acc, loss, top\<close>.\<close>

theorem C8_dict_zip_witness:
  "evaluate dup_framework 0 [] = Inr [5, 6, 7] \<and>
   metrics_names dup_framework 0 = [''loss'', ''acc'', ''loss'', ''top''] \<and>
   fst (body_task1 dup_framework 0 []) = Inr [(''loss'', Scalar 7), (''acc'', Scalar 6)]"
proof -
  have h: "evaluate dup_framework 0 [] = Inr [5, 6, 7]"
    by (simp add: dup_framework_def demo_framework_def)
  have n: "metrics_names dup_framework 0 = [''loss'', ''acc'', ''loss'', ''top'']"
    by (simp add: dup_framework_def demo_framework_def)
  have d: "py_dict (zip [''loss'', ''acc'', ''loss'', ''top''] (map Scalar [5, 6, 7::int]))
             = [(''loss'', Scalar 7), (''acc'', Scalar 6)]"
    by (simp add: py_dict_def)
  from C8_dict_zip [OF h]
  have "fst (body_task1 dup_framework 0 []) =
          Inr (py_dict (zip (metrics_names dup_framework 0) (map Scalar [5, 6, 7])))"
    unfolding Let_def by (rule conjunct1)
  then have "fst (body_task1 dup_framework 0 []) = Inr [(''loss'', Scalar 7), (''acc'', Scalar 6)]"
    by (simp only: n d)
  with h n show ?thesis by blast
qed

subsection \<open>C9: the empty test dictionary\<close>

text \<open>
  Claim C9: on an empty \<open>test_dict\<close>, \<^verbatim>\<open>evaluate_model\<close> returns the empty
  dictionary and makes no call (the model is not evaluated). When the model has been
  trained or loaded and no test file is selected, the script returns the empty
  evaluation; after the search for test files its only call is the \<^verbatim>\<open>json.dump\<close>
  that writes \<open>{}\<close> to \<^verbatim>\<open>eval.json\<close>.
\<close>

theorem C9_empty_test_dict:
  "evaluate_model_task1 fw model [] = (None, \<lparr>test_dict = [], evaluation = [], em_calls = []\<rparr>) \<and>
   evaluate_model_task2 fw model [] = (None, \<lparr>test_dict = [], evaluation = [], em_calls = []\<rparr>) \<and>
   returned (evaluate_model_task1 fw model []) = (Inr [], []) \<and>
   returned (evaluate_model_task2 fw model []) = (Inr [], []) \<and>
   (\<forall>df m. data_folder_task1 (config e) = Inr df \<and>
      fst (fit_or_load_task1 e fw df
             (py_join (experiments_folder e) ''results_dilated_convolutional_model'')) = Inr m \<and>
      split_files (fs e) df ''test_-_'' features_task1 = Inr []
      \<longrightarrow> main_task1 e fw =
            (Inr [],
             Makedirs (py_join (experiments_folder e) ''results_dilated_convolutional_model'') #
             snd (fit_or_load_task1 e fw df
                    (py_join (experiments_folder e) ''results_dilated_convolutional_model'')) @
             [Glob df ''test_-_'',
              JsonDump (py_join (py_join (experiments_folder e)
                                   ''results_dilated_convolutional_model'') ''eval.json'')
                       ''{}''])) \<and>
   (\<forall>df m. data_folder_task2 (config e) = Inr df \<and>
      fst (fit_or_load_task2 e fw df (py_join (experiments_folder e) ''results_vlaai_mel''))
        = Inr m \<and>
      split_files (fs e) (py_join df ''test'') ''test_-_'' features_task2 = Inr []
      \<longrightarrow> main_task2 e fw =
            (Inr [],
             Makedirs (py_join (experiments_folder e) ''results_vlaai_mel'') #
             snd (fit_or_load_task2 e fw df (py_join (experiments_folder e) ''results_vlaai_mel'')) @
             [Glob (py_join df ''test'') ''test_-_'',
              JsonDump (py_join (py_join (experiments_folder e) ''results_vlaai_mel'') ''eval.json'')
                       ''{}'']))"
  by (intro conjI allI impI)
     (simp_all add: evaluate_model_empty returned_def main_task1_no_test_files
                    main_task2_no_test_files)

text \<open>Both scripts in folders without files.\<close>

theorem C9_empty_test_dict_witness:
  "data_folder_task1 (config empty_env) = Inr ''/d/s'' \<and>
   split_files (fs empty_env) ''/d/s'' ''test_-_'' features_task1 = Inr [] \<and>
   main_task1 empty_env demo_framework =
     (Inr [],
      [Makedirs ''/x/results_dilated_convolutional_model'',
       LoadModel ''/x/results_dilated_convolutional_model/model.h5'',
       Glob ''/d/s'' ''test_-_'',
       JsonDump ''/x/results_dilated_convolutional_model/eval.json'' ''{}'']) \<and>
   data_folder_task2 (config empty_env) = Inr ''/d/v/s'' \<and>
   split_files (fs empty_env) ''/d/v/s/test'' ''test_-_'' features_task2 = Inr [] \<and>
   main_task2 empty_env demo_framework =
     (Inr [],
      [Makedirs ''/x/results_vlaai_mel'',
       LoadWeights ''/x/results_vlaai_mel/model.h5'',
       Glob ''/d/v/s/test'' ''test_-_'',
       JsonDump ''/x/results_vlaai_mel/eval.json'' ''{}''])"
proof -
  note c = C9_empty_test_dict [where fw = demo_framework and model = "0::nat" and e = empty_env]
  have df1: "data_folder_task1 (config empty_env) = Inr ''/d/s''" by code_simp
  have rf1: "py_join (experiments_folder empty_env) ''results_dilated_convolutional_model''
               = ''/x/results_dilated_convolutional_model''"
    by code_simp
  have fl1: "fit_or_load_task1 empty_env demo_framework ''/d/s''
               ''/x/results_dilated_convolutional_model''
              = (Inr 1, [LoadModel ''/x/results_dilated_convolutional_model/model.h5''])"
    by code_simp
  have tf1: "split_files (fs empty_env) ''/d/s'' ''test_-_'' features_task1 = Inr []"
    by code_simp
  have rp1: "py_join ''/x/results_dilated_convolutional_model'' ''eval.json''
               = ''/x/results_dilated_convolutional_model/eval.json''"
    by code_simp
  have hyp1: "data_folder_task1 (config empty_env) = Inr ''/d/s'' \<and>
      fst (fit_or_load_task1 empty_env demo_framework ''/d/s''
             (py_join (experiments_folder empty_env) ''results_dilated_convolutional_model''))
        = Inr 1 \<and>
      split_files (fs empty_env) ''/d/s'' ''test_-_'' features_task1 = Inr []"
    by (simp only: df1 rf1 fl1 tf1 fst_conv simp_thms)
  have m1: "main_task1 empty_env demo_framework =
     (Inr [],
      [Makedirs ''/x/results_dilated_convolutional_model'',
       LoadModel ''/x/results_dilated_convolutional_model/model.h5'',
       Glob ''/d/s'' ''test_-_'',
       JsonDump ''/x/results_dilated_convolutional_model/eval.json'' ''{}''])"
    using c [THEN conjunct2, THEN conjunct2, THEN conjunct2, THEN conjunct2, THEN conjunct1,
             rule_format, OF hyp1]
    by (simp only: rf1 fl1 rp1 snd_conv append_Cons append_Nil)
  have df2: "data_folder_task2 (config empty_env) = Inr ''/d/v/s''" by code_simp
  have rf2: "py_join (experiments_folder empty_env) ''results_vlaai_mel''
               = ''/x/results_vlaai_mel''"
    by code_simp
  have fl2: "fit_or_load_task2 empty_env demo_framework ''/d/v/s'' ''/x/results_vlaai_mel''
              = (Inr 1, [LoadWeights ''/x/results_vlaai_mel/model.h5''])"
    by code_simp
  have tj: "py_join ''/d/v/s'' ''test'' = ''/d/v/s/test''" by code_simp
  have tf2: "split_files (fs empty_env) ''/d/v/s/test'' ''test_-_'' features_task2 = Inr []"
    by code_simp
  have rp2: "py_join ''/x/results_vlaai_mel'' ''eval.json'' = ''/x/results_vlaai_mel/eval.json''"
    by code_simp
  have hyp2: "data_folder_task2 (config empty_env) = Inr ''/d/v/s'' \<and>
      fst (fit_or_load_task2 empty_env demo_framework ''/d/v/s''
             (py_join (experiments_folder empty_env) ''results_vlaai_mel'')) = Inr 1 \<and>
      split_files (fs empty_env) (py_join ''/d/v/s'' ''test'') ''test_-_'' features_task2 = Inr []"
    by (simp only: df2 rf2 fl2 tj tf2 fst_conv simp_thms)
  have m2: "main_task2 empty_env demo_framework =
     (Inr [],
      [Makedirs ''/x/results_vlaai_mel'',
       LoadWeights ''/x/results_vlaai_mel/model.h5'',
       Glob ''/d/v/s/test'' ''test_-_'',
       JsonDump ''/x/results_vlaai_mel/eval.json'' ''{}''])"
    using c [THEN conjunct2, THEN conjunct2, THEN conjunct2, THEN conjunct2, THEN conjunct2,
             rule_format, OF hyp2]
    by (simp only: rf2 fl2 tj rp2 snd_conv append_Cons append_Nil)
  show ?thesis by (intro conjI df1 tf1 m1 df2 tf2 m2)
qed

subsection \<open>C10: the argument of evaluate\_model\<close>

text \<open>
  Claim C10: \<^verbatim>\<open>evaluate_model\<close> does not change its argument \<open>test_dict\<close>: when the
  function is left, by return or by an exception, \<open>test_dict\<close> holds the same subjects
  with the same datasets as at the call.
\<close>

theorem C10_test_dict_unchanged:
  "test_dict (snd (evaluate_model_task1 fw model td)) = td \<and>
   test_dict (snd (evaluate_model_task2 fw model td)) = td"
  by (simp add: evaluate_model_task1_def evaluate_model_task2_def evaluate_loop_test_dict)

end
